theory Spec2Isabelle
  imports Complex_Main "HOL-Library.Log_Nat"
begin

section \<open>The server of \<^verbatim>\<open>src/server.js\<close>\<close>

text \<open>
  The Express application of \<^verbatim>\<open>server.js\<close>, as functions on an explicit state.
  \<^item> The two tables the handlers query (\<^verbatim>\<open>users\<close>, \<^verbatim>\<open>game_stats\<close>) are lists of rows
    in insertion order; every SQL statement of the source is written out on them.
  \<^item> A JavaScript string is a list of code units. HOL's \<open>char\<close> has eight bits, so the
    strings of the model are those over U+0000..U+00FF; the accented letters of the
    Portuguese messages are single units (\<open>CHR 0xE1\<close> is a-acute).
  \<^item> \<^verbatim>\<open>bcrypt\<close>, \<^verbatim>\<open>jsonwebtoken\<close> and the environment variables are parameters (the
    record \<open>env\<close>); what a theorem needs of them is a hypothesis of that theorem.
  \<^item> What one request reads from outside (the clock, \<^verbatim>\<open>Math.random\<close>, the salt bcrypt
    draws, whether a query or the mail transport rejects) is the record \<open>io\<close>.
  \<^item> An \<^verbatim>\<open>await\<close> that rejects inside \<^verbatim>\<open>try\<close> is the \<^verbatim>\<open>catch\<close> branch of the handler.
  \<^item> A number is a double. The numbers of a request body, \<^verbatim>\<open>Math.random()\<close> and the
    scores \<^verbatim>\<open>/stats/update\<close> computes with are given by their exact values, and \<open>fl\<close>
    rounds the exact result of an operation to the nearest double.
  \<^item> The hours (\<^verbatim>\<open>total_hours\<close>, \<^verbatim>\<open>duration\<close>), on which no property below depends, have
    the abstract type \<open>'f\<close>, and the arithmetic on them is a parameter.
\<close>

subsection \<open>JavaScript values\<close>

text \<open>
  A field of the body as \<^verbatim>\<open>express.json()\<close> hands it over: absent (reading it gives
  \<^verbatim>\<open>undefined\<close>), \<^verbatim>\<open>null\<close>, a boolean, a number, a string, or an array or object.
  \<^item> A number is a double: \<open>Num x\<close> is the finite double of value \<open>x\<close> (both zeros are
    \<open>Num 0\<close>), and \<open>Infinity negative\<close> is what \<^verbatim>\<open>JSON.parse\<close> makes of a numeral beyond the
    doubles, such as \<^verbatim>\<open>1e999\<close>.
  \<^item> Of an array or object the handlers see that it is truthy, that it is not a string,
    and the string \<^verbatim>\<open>ToString\<close> gives it (the elements joined by commas for an array,
    \<^verbatim>\<open>[object Object]\<close> for an object); \<open>Obj\<close> carries that string. Left out is an object
    with a property \<^verbatim>\<open>toString\<close> or \<^verbatim>\<open>valueOf\<close> of its own, on which \<^verbatim>\<open>ToString\<close> throws:
    \<^verbatim>\<open>parseInt\<close> is called outside the \<^verbatim>\<open>try\<close> of its handler, and what is answered then
    is decided by Express, not by the source.
\<close>

datatype jsval =
    Undefined
  | Null
  | Bool bool
  | Num rat
  | Infinity bool
  | Str string
  | Obj string

text \<open>What \<^verbatim>\<open>res.json\<close> serialises.\<close>

datatype 'f json =
    JNull
  | JInt int
  | JFloat 'f
  | JStr string
  | JObj "(string \<times> 'f json) list"

text \<open>\<^verbatim>\<open>!v\<close> for a field that is a string or absent: \<^verbatim>\<open>undefined\<close> and \<^verbatim>\<open>""\<close> are falsy.\<close>

definition falsy :: "string option \<Rightarrow> bool" where
  "falsy v = (case v of None \<Rightarrow> True | Some s \<Rightarrow> s = [])"

text \<open>
  \<^verbatim>\<open>!v\<close> for any value is \<open>\<not> ToBoolean v\<close>: \<^verbatim>\<open>undefined\<close>, \<^verbatim>\<open>null\<close>, \<^verbatim>\<open>false\<close>, zero and
  \<^verbatim>\<open>""\<close> are falsy, every other value is truthy.
\<close>

fun ToBoolean :: "jsval \<Rightarrow> bool" where
  "ToBoolean Undefined = False"
| "ToBoolean Null = False"
| "ToBoolean (Bool v) = v"
| "ToBoolean (Num x) = (x \<noteq> 0)"
| "ToBoolean (Infinity negative) = True"
| "ToBoolean (Str s) = (s \<noteq> [])"
| "ToBoolean (Obj s) = True"

text \<open>\<^verbatim>\<open>s.split(' ')\<close>: every single separator cuts; the empty string gives \<^verbatim>\<open>[""]\<close>.\<close>

fun split :: "char \<Rightarrow> string \<Rightarrow> string list" where
  "split c [] = [[]]"
| "split c (x # xs) =
     (if x = c then [] # split c xs
      else (case split c xs of
              [] \<Rightarrow> [[x]]
            | y # ys \<Rightarrow> (x # y) # ys))"

text \<open>\<^verbatim>\<open>xs[i]\<close>: \<^verbatim>\<open>undefined\<close> out of range.\<close>

fun index :: "'a list \<Rightarrow> nat \<Rightarrow> 'a option" where
  "index [] i = None"
| "index (x # xs) 0 = Some x"
| "index (x # xs) (Suc i) = index xs i"

subsubsection \<open>Doubles\<close>

text \<open>The integer nearest to \<open>x\<close>, the even one of two that are equally near.\<close>

definition round_half_even :: "rat \<Rightarrow> int" where
  "round_half_even x =
     (let n = \<lfloor>x\<rfloor>; r = x - of_int n
      in if r < 1 / 2 then n
         else if 1 / 2 < r then n + 1
         else if even n then n else n + 1)"

text \<open>For \<open>0 < x\<close>, the \<open>e\<close> with \<open>2\<^sup>e \<le> x < 2\<^sup>e\<^sup>+\<^sup>1\<close> (\<open>bitlen\<close> counts binary digits).\<close>

definition binade :: "rat \<Rightarrow> int" where
  "binade x = (if 1 \<le> x then bitlen \<lfloor>x\<rfloor> - 1 else - bitlen (\<lceil>1 / x\<rceil> - 1))"

text \<open>
  The double nearest to \<open>x\<close>, ties to even: \<open>x\<close> rounded to a multiple of
  \<open>2\<^sup>e\<^sup>-\<^sup>5\<^sup>2\<close>, where \<open>e\<close> is the binade of \<open>x\<close> and at least \<open>-1022\<close> (below
  \<open>2\<^sup>-\<^sup>1\<^sup>0\<^sup>2\<^sup>2\<close> the doubles are the multiples of \<open>2\<^sup>-\<^sup>1\<^sup>0\<^sup>7\<^sup>4\<close>). From
  \<open>2\<^sup>1\<^sup>0\<^sup>2\<^sup>4 - 2\<^sup>9\<^sup>7\<^sup>0\<close> on a result is \<^verbatim>\<open>Infinity\<close>; that is written out where a result
  can be that large (\<open>to_Number\<close>).
\<close>

definition fl :: "rat \<Rightarrow> rat" where
  "fl x =
     (if x = 0 then 0
      else let q = 2 powi (max (binade \<bar>x\<bar>) (- 1022) - 52)
           in of_int (round_half_even (x / q)) * q)"

subsubsection \<open>Numbers as strings\<close>

fun digits :: "nat \<Rightarrow> string" where
  "digits n =
     (if n < 10 then [char_of (48 + n)]
      else digits (n div 10) @ [char_of (48 + n mod 10)])"

declare digits.simps [simp del]

text \<open>The decimal numeral of an integer.\<close>

definition decimal :: "int \<Rightarrow> string" where
  "decimal n = (if n < 0 then CHR ''-'' # digits (nat (- n)) else digits (nat n))"

definition is_digit :: "char \<Rightarrow> bool" where
  "is_digit c = (48 \<le> (of_char c :: nat) \<and> (of_char c :: nat) \<le> 57)"

text \<open>The white space \<^verbatim>\<open>parseInt\<close> skips, as far as it lies in U+0000..U+00FF.\<close>

definition is_space :: "char \<Rightarrow> bool" where
  "is_space c = ((of_char c :: nat) \<in> {9, 10, 11, 12, 13, 32, 160})"

definition digits_value :: "string \<Rightarrow> nat" where
  "digits_value ds = foldl (\<lambda>a c. 10 * a + ((of_char c :: nat) - 48)) 0 ds"

text \<open>
  The integer \<^verbatim>\<open>parseInt(s, 10)\<close> reads from a string: leading white space, a sign, then
  the longest run of decimal digits; \<open>None\<close> is \<^verbatim>\<open>NaN\<close> (no digit there).
\<close>

definition parseInt_string :: "string \<Rightarrow> int option" where
  "parseInt_string s =
     (let t = dropWhile is_space s;
          (sign, r) =
             (case t of
                [] \<Rightarrow> (1, t)
              | c # cs \<Rightarrow>
                  if c = CHR ''-'' then (- 1, cs)
                  else if c = CHR ''+'' then (1, cs)
                  else (1, t));
          ds = takeWhile is_digit r
      in if ds = [] then None else Some (sign * int (digits_value ds)))"

subsubsection \<open>\<^verbatim>\<open>parseInt\<close>\<close>

text \<open>
  The numbers \<^verbatim>\<open>parseInt\<close> returns, \<^verbatim>\<open>NaN\<close> apart: an integer that is a double, or
  \<^verbatim>\<open>Infinity\<close> (\<open>Infinite True\<close> is \<^verbatim>\<open>-Infinity\<close>).
\<close>

datatype number = Finite int | Infinite bool

text \<open>The number for an exact integer result: the nearest double, or \<^verbatim>\<open>Infinity\<close>.\<close>

definition to_Number :: "int \<Rightarrow> number" where
  "to_Number v =
     (if 2 ^ 1024 - 2 ^ 970 \<le> \<bar>v\<bar> then Infinite (v < 0) else Finite \<lfloor>fl (of_int v)\<rfloor>)"

text \<open>
  \<^verbatim>\<open>parseInt(x, 10)\<close> for a number \<open>x\<close>. The argument is converted to a string first, and
  \<^verbatim>\<open>String(x)\<close> is the shortest decimal numeral that reads back as \<open>x\<close> (the nearest to
  \<open>x\<close> of them):
  \<^item> written in full when that numeral is at least \<open>10\<^sup>-\<^sup>6\<close> and below \<open>10\<^sup>2\<^sup>1\<close>, that is,
    when \<open>fl (10\<^sup>-\<^sup>6) \<le> \<bar>x\<bar> < 10\<^sup>2\<^sup>1\<close>. \<^verbatim>\<open>parseInt\<close> reads the digits before the point,
    and the number they denote is \<open>x\<close> with its fraction cut off;
  \<^item> in exponent notation otherwise (\<^verbatim>\<open>1e+21\<close>, \<^verbatim>\<open>1.5e-7\<close>). \<^verbatim>\<open>parseInt\<close> reads the one
    digit before the point or the \<^verbatim>\<open>e\<close>. That is the leading digit of \<open>\<bar>x\<bar>\<close>, unless a
    numeral of one digit reads back as \<open>x\<close>, which then is the shortest.
  \<open>decade x\<close> is the \<open>m\<close> with \<open>10\<^sup>m \<le> x < 10\<^sup>m\<^sup>+\<^sup>1\<close>, for \<open>0 < x\<close>.
\<close>

definition decade :: "rat \<Rightarrow> int" where
  "decade x =
     (if 1 \<le> x then int (length (digits (nat \<lfloor>x\<rfloor>))) - 1
      else - int (length (digits (nat (\<lceil>1 / x\<rceil> - 1)))))"

definition exponent_digit :: "rat \<Rightarrow> int" where
  "exponent_digit x =
     (let p = 10 powi decade x;
          d = \<lfloor>x / p\<rfloor>;
          lo = of_int d * p;
          hi = of_int (d + 1) * p
      in if fl hi = x \<and> (hi - x < x - lo \<or> fl lo \<noteq> x)
         then (if d = 9 then 1 else d + 1)
         else d)"

definition parseInt_Number :: "rat \<Rightarrow> int" where
  "parseInt_Number x =
     (if x = 0 then 0
      else if fl (1 / 10 ^ 6) \<le> \<bar>x\<bar> \<and> \<bar>x\<bar> < 10 ^ 21
      then (if x < 0 then \<lceil>x\<rceil> else \<lfloor>x\<rfloor>)
      else (if x < 0 then - exponent_digit (- x) else exponent_digit x))"

text \<open>
  \<^verbatim>\<open>parseInt(v, 10)\<close>; \<open>None\<close> is \<^verbatim>\<open>NaN\<close>. The strings of \<^verbatim>\<open>undefined\<close>, \<^verbatim>\<open>null\<close>, the
  booleans and \<^verbatim>\<open>Infinity\<close> start with no digit.
\<close>

fun parseInt :: "jsval \<Rightarrow> number option" where
  "parseInt Undefined = None"
| "parseInt Null = None"
| "parseInt (Bool v) = None"
| "parseInt (Num x) = Some (Finite (parseInt_Number x))"
| "parseInt (Infinity negative) = None"
| "parseInt (Str s) = map_option to_Number (parseInt_string s)"
| "parseInt (Obj s) = map_option to_Number (parseInt_string s)"

text \<open>
  \<^verbatim>\<open>a + n\<close> and \<^verbatim>\<open>n > a\<close> for a number \<open>n\<close> and the integer \<open>a\<close> of a column.
\<close>

fun number_add :: "int \<Rightarrow> number \<Rightarrow> number" where
  "number_add a (Finite n) = to_Number (a + n)"
| "number_add a (Infinite negative) = Infinite negative"

fun number_greater :: "number \<Rightarrow> int \<Rightarrow> bool" where
  "number_greater (Finite n) a = (a < n)"
| "number_greater (Infinite negative) a = (\<not> negative)"

subsection \<open>The store\<close>

text \<open>
  The schema is not part of the repository; the columns are those the statements name.
  \<^verbatim>\<open>reset_token\<close> and \<^verbatim>\<open>reset_expires\<close> are nullable and \<^verbatim>\<open>NULL\<close> when an \<^verbatim>\<open>INSERT\<close>
  does not list them. Times are milliseconds since the epoch. \<^verbatim>\<open>high_score\<close> and
  \<^verbatim>\<open>total_score\<close> are integer columns, which the driver hands over as numbers; a
  statement that is to write \<^verbatim>\<open>Infinity\<close> to one rejects.
\<close>

record users_row =
  u_id :: nat
  u_name :: string
  u_email :: string
  u_password_hash :: string
  u_reset_token :: "string option"
  u_reset_expires :: "int option"

record 'f game_stats_row =
  gs_id :: nat
  gs_user_id :: nat
  gs_game_type :: "string option"
  gs_total_hours :: 'f
  gs_high_score :: int
  gs_total_score :: int

text \<open>What \<^verbatim>\<open>transporter.sendMail\<close> is handed.\<close>

record mail =
  mail_from :: "string option"
  mail_to :: string
  mail_subject :: string
  mail_text :: string

text \<open>
  The state: the two tables, their \<^verbatim>\<open>id\<close> sequences, and the calls of
  \<^verbatim>\<open>transporter.sendMail\<close> so far (delivered or not), oldest first.
\<close>

record 'f state =
  users :: "users_row list"
  game_stats :: "'f game_stats_row list"
  users_id_seq :: nat
  game_stats_id_seq :: nat
  sendMail_calls :: "mail list"

subsection \<open>The libraries and the environment\<close>

record jwt_payload =
  payload_id :: nat
  payload_email :: string

record jwt_claims = jwt_payload +
  claim_iat :: int
  claim_exp :: int

text \<open>
  \<^item> \<open>bcrypt_hash data rounds salt\<close> is \<^verbatim>\<open>bcrypt.hash(data, rounds)\<close> when bcrypt draws
    \<open>salt\<close>; \<open>bcrypt_compare data hash\<close> is \<^verbatim>\<open>bcrypt.compare(data, hash)\<close>.
  \<^item> \<open>jwt_sign payload secret expiresIn now\<close> is \<^verbatim>\<open>jwt.sign\<close> at clock \<open>now\<close> with a
    lifetime of \<open>expiresIn\<close> seconds, \<open>None\<close> when it throws; \<open>jwt_verify token secret now\<close>
    is the decoded payload \<^verbatim>\<open>jwt.verify\<close> hands its callback, \<open>None\<close> when it hands
    an error.
  \<^item> \<open>parseFloat_or_0 v\<close> is \<^verbatim>\<open>parseFloat(v) || 0\<close>, \<open>parseFloat_column h\<close> is
    \<^verbatim>\<open>parseFloat\<close> of a \<^verbatim>\<open>total_hours\<close> read from the store, \<open>float_add\<close> is \<^verbatim>\<open>+\<close> on doubles.
  \<^item> \<open>toString_large n\<close> is \<^verbatim>\<open>n.toString()\<close> for an integer \<open>n\<close> beyond \<open>\<plusminus>2\<^sup>5\<^sup>3\<close>, where the
    digits written are not always those of \<open>n\<close>.
  \<^verbatim>\<open>bcrypt.hash\<close> and \<^verbatim>\<open>bcrypt.compare\<close> take their data as a string; handed anything else
  they reject, and that is a branch of the handler that calls them.
\<close>

record 'f env =
  JWT_SECRET :: "string option"
  MAIL_FROM :: "string option"
  bcrypt_hash :: "string \<Rightarrow> nat \<Rightarrow> string \<Rightarrow> string"
  bcrypt_compare :: "string \<Rightarrow> string \<Rightarrow> bool"
  jwt_sign :: "jwt_payload \<Rightarrow> string option \<Rightarrow> int \<Rightarrow> int \<Rightarrow> string option"
  jwt_verify :: "string \<Rightarrow> string option \<Rightarrow> int \<Rightarrow> jwt_claims option"
  parseFloat_or_0 :: "'f \<Rightarrow> 'f"
  parseFloat_column :: "'f \<Rightarrow> 'f"
  float_add :: "'f \<Rightarrow> 'f \<Rightarrow> 'f"
  toString_large :: "int \<Rightarrow> string"

text \<open>
  What one request reads from outside: \<^verbatim>\<open>Date.now()\<close>, \<^verbatim>\<open>Math.random()\<close> (the exact
  value of the double it returns), the salt of \<^verbatim>\<open>bcrypt.hash\<close>, whether the \<open>k\<close>-th
  \<^verbatim>\<open>pool.query\<close> of the request rejects (counted from 0), and whether
  \<^verbatim>\<open>transporter.sendMail\<close> rejects.
\<close>

record io =
  Date_now :: int
  Math_random :: rat
  bcrypt_salt :: string
  query_rejects :: "nat \<Rightarrow> bool"
  sendMail_rejects :: bool

subsection \<open>Requests and responses\<close>

datatype http_method = GET | POST

text \<open>
  The fields the handlers take from \<^verbatim>\<open>req.body\<close>. \<^verbatim>\<open>password\<close> and \<^verbatim>\<open>score\<close> are any
  value of the body. The other fields of the \<^verbatim>\<open>/auth\<close> routes and \<^verbatim>\<open>gameType\<close> are taken
  to be strings, \<open>None\<close> when the body has no such field; \<^verbatim>\<open>duration\<close> is whatever the
  body carried, and is read through \<^verbatim>\<open>parseFloat\<close> only.
\<close>

record 'f body =
  name :: "string option"
  email :: "string option"
  password :: jsval
  token :: "string option"
  newPassword :: "string option"
  gameType :: "string option"
  score :: jsval
  duration :: 'f

text \<open>Node lower-cases the names of the headers.\<close>

record 'f request =
  req_method :: http_method
  req_path :: string
  headers :: "string \<rightharpoonup> string"
  body :: "'f body"

record 'f response =
  status :: nat
  json :: "'f json"

text \<open>\<^verbatim>\<open>res.status(n).json({ msg: m })\<close>.\<close>

definition msg :: "nat \<Rightarrow> string \<Rightarrow> 'f response" where
  "msg n m = \<lparr>status = n, json = JObj [(''msg'', JStr m)]\<rparr>"

subsection \<open>Helpers\<close>

definition generateToken :: "'f env \<Rightarrow> io \<Rightarrow> users_row \<Rightarrow> string option" where
  "generateToken env io user =
     jwt_sign env \<lparr>payload_id = u_id user, payload_email = u_email user\<rparr>
       (JWT_SECRET env) 86400 (Date_now io)"

text \<open>
  \<^verbatim>\<open>n.toString()\<close> for an integer \<open>n\<close>: its decimal numeral while \<open>\<bar>n\<bar> \<le> 2\<^sup>5\<^sup>3\<close>.
\<close>

definition Number_toString :: "'f env \<Rightarrow> int \<Rightarrow> string" where
  "Number_toString env n = (if \<bar>n\<bar> \<le> 2 ^ 53 then decimal n else toString_large env n)"

text \<open>The product and the sum are rounded, each to a double.\<close>

definition generateResetCode :: "'f env \<Rightarrow> io \<Rightarrow> string" where
  "generateResetCode env io =
     Number_toString env \<lfloor>fl (100000 + fl (Math_random io * 900000))\<rfloor>"

text \<open>\<^verbatim>\<open>new Date(v)\<close> for a \<^verbatim>\<open>reset_expires\<close> read from the store: \<^verbatim>\<open>null\<close> is the epoch.\<close>

definition new_Date :: "int option \<Rightarrow> int" where
  "new_Date v = (case v of None \<Rightarrow> 0 | Some t \<Rightarrow> t)"

text \<open>The object \<^verbatim>\<open>{ id, name, email }\<close> of a user.\<close>

definition public_user :: "nat \<Rightarrow> string \<Rightarrow> string \<Rightarrow> 'f json" where
  "public_user i n e = JObj [(''id'', JInt (int i)), (''name'', JStr n), (''email'', JStr e)]"

subsection \<open>The statements on \<^verbatim>\<open>users\<close>\<close>

text \<open>\<^verbatim>\<open>SELECT ... FROM users WHERE email = $1\<close>.\<close>

definition select_users :: "string \<Rightarrow> 'f state \<Rightarrow> users_row list" where
  "select_users e s = filter (\<lambda>u. u_email u = e) (users s)"

text \<open>
  \<^verbatim>\<open>INSERT INTO users (name, email, password_hash) VALUES ($1, $2, $3) RETURNING ...\<close>:
  the new row takes its \<^verbatim>\<open>id\<close> from the sequence.
\<close>

definition insert_user :: "string \<Rightarrow> string \<Rightarrow> string \<Rightarrow> 'f state \<Rightarrow> users_row \<times> 'f state" where
  "insert_user n e h s =
     (let row = \<lparr>u_id = users_id_seq s, u_name = n, u_email = e, u_password_hash = h,
                 u_reset_token = None, u_reset_expires = None\<rparr>
      in (row, s\<lparr>users := users s @ [row], users_id_seq := Suc (users_id_seq s)\<rparr>))"

text \<open>\<^verbatim>\<open>UPDATE users SET reset_token = $1, reset_expires = $2 WHERE id = $3\<close>.\<close>

definition update_reset :: "string \<Rightarrow> int \<Rightarrow> nat \<Rightarrow> 'f state \<Rightarrow> 'f state" where
  "update_reset code expires i s =
     s\<lparr>users :=
         map (\<lambda>u. if u_id u = i
                   then u\<lparr>u_reset_token := Some code, u_reset_expires := Some expires\<rparr>
                   else u)
           (users s)\<rparr>"

text \<open>
  \<^verbatim>\<open>UPDATE users SET password_hash = $1, reset_token = NULL, reset_expires = NULL
  WHERE id = $2\<close>.
\<close>

definition update_password :: "string \<Rightarrow> nat \<Rightarrow> 'f state \<Rightarrow> 'f state" where
  "update_password h i s =
     s\<lparr>users :=
         map (\<lambda>u. if u_id u = i
                   then u\<lparr>u_password_hash := h, u_reset_token := None, u_reset_expires := None\<rparr>
                   else u)
           (users s)\<rparr>"

subsection \<open>The authentication middleware\<close>

text \<open>
  \<^verbatim>\<open>authHeader && authHeader.split(' ')[1]\<close>, where \<open>authHeader\<close> is
  \<^verbatim>\<open>req.headers['authorization']\<close>: \<open>None\<close> is \<^verbatim>\<open>undefined\<close>.
\<close>

definition bearer_token :: "'f request \<Rightarrow> string option" where
  "bearer_token req =
     (case headers req ''authorization'' of
        None \<Rightarrow> None
      | Some authHeader \<Rightarrow>
          if authHeader = [] then Some authHeader else index (split CHR '' '' authHeader) 1)"

text \<open>
  \<open>Inl\<close> is the response the middleware sends itself; \<open>Inr\<close> is \<^verbatim>\<open>next()\<close>, with the
  decoded payload it stores in \<^verbatim>\<open>req.user\<close>.
\<close>

definition authenticateToken :: "'f env \<Rightarrow> io \<Rightarrow> 'f request \<Rightarrow> 'f response + jwt_claims" where
  "authenticateToken env io req =
     (let token = bearer_token req in
      if falsy token then Inl (msg 401 ''Acesso negado.'')
      else case token of
             None \<Rightarrow> Inl (msg 401 ''Acesso negado.'')
           | Some t \<Rightarrow>
               (case jwt_verify env t (JWT_SECRET env) (Date_now io) of
                  None \<Rightarrow> Inl (msg 403 (''Token inv'' @ [CHR 0xE1] @ ''lido.''))
                | Some user \<Rightarrow> Inr user))"

subsection \<open>The routes of \<^verbatim>\<open>/auth\<close>\<close>

text \<open>
  In \<^verbatim>\<open>register\<close> and \<^verbatim>\<open>login\<close> a truthy \<^verbatim>\<open>password\<close> that is not a string (a number,
  \<^verbatim>\<open>true\<close>, an array, an object) passes the check of the fields and makes \<^verbatim>\<open>bcrypt\<close>
  reject, which the \<^verbatim>\<open>catch\<close> answers with 500.
\<close>

definition register :: "'f env \<Rightarrow> io \<Rightarrow> 'f body \<Rightarrow> 'f state \<Rightarrow> 'f response \<times> 'f state" where
  "register env io b s =
     (if falsy (name b) \<or> falsy (email b) \<or> \<not> ToBoolean (password b)
      then (msg 400 ''Preencha todos os campos.'', s)
      else case (name b, email b) of
        (Some n, Some e) \<Rightarrow>
          if query_rejects io 0 then (msg 500 ''Erro no servidor.'', s)
          else if length (select_users e s) > 0
          then (msg 400 (''Email j'' @ [CHR 0xE1] @ '' cadastrado.''), s)
          else (case password b of
                  Str p \<Rightarrow>
                    let hash = bcrypt_hash env p 10 (bcrypt_salt io) in
                    if query_rejects io 1 then (msg 500 ''Erro no servidor.'', s)
                    else
                      let (row, s') = insert_user n e hash s in
                      (\<lparr>status = 201,
                        json = JObj [(''msg'', JStr ''Conta criada com sucesso.''),
                                     (''user'',
                                      public_user (u_id row) (u_name row) (u_email row))]\<rparr>,
                       s')
                | _ \<Rightarrow> (msg 500 ''Erro no servidor.'', s))
      | _ \<Rightarrow> (msg 400 ''Preencha todos os campos.'', s))"

definition login :: "'f env \<Rightarrow> io \<Rightarrow> 'f body \<Rightarrow> 'f state \<Rightarrow> 'f response \<times> 'f state" where
  "login env io b s =
     (if falsy (email b) \<or> \<not> ToBoolean (password b)
      then (msg 400 ''Preencha todos os campos.'', s)
      else case email b of
        Some e \<Rightarrow>
          if query_rejects io 0 then (msg 500 ''Erro no servidor.'', s)
          else (case select_users e s of
                  [] \<Rightarrow> (msg 400 ''Credenciais incorretas.'', s)
                | user # _ \<Rightarrow>
                    (case password b of
                       Str p \<Rightarrow>
                         if \<not> bcrypt_compare env p (u_password_hash user)
                         then (msg 400 ''Credenciais incorretas.'', s)
                         else (case generateToken env io user of
                                 None \<Rightarrow> (msg 500 ''Erro no servidor.'', s)
                               | Some tok \<Rightarrow>
                                   (\<lparr>status = 200,
                                     json = JObj [(''token'', JStr tok),
                                                  (''user'',
                                                   public_user (u_id user) (u_name user)
                                                     (u_email user))]\<rparr>,
                                    s))
                     | _ \<Rightarrow> (msg 500 ''Erro no servidor.'', s)))
      | None \<Rightarrow> (msg 400 ''Preencha todos os campos.'', s))"

text \<open>The mail of \<^verbatim>\<open>/auth/forgot-password\<close>.\<close>

definition reset_mail :: "'f env \<Rightarrow> string \<Rightarrow> string \<Rightarrow> string \<Rightarrow> mail" where
  "reset_mail env to user_name code =
     \<lparr>mail_from = MAIL_FROM env,
      mail_to = to,
      mail_subject = ''Redefini'' @ [CHR 0xE7, CHR 0xE3] @ ''o de senha - Prof Smart'',
      mail_text =
        ''Ol'' @ [CHR 0xE1] @ '', '' @ user_name @ ''!'' @ [CHR 0x0A, CHR 0x0A]
        @ ''Seu c'' @ [CHR 0xF3] @ ''digo: '' @ code @ [CHR 0x0A, CHR 0x0A]
        @ ''V'' @ [CHR 0xE1] @ ''lido por 15 minutos.''\<rparr>"

definition forgot_password :: "'f env \<Rightarrow> io \<Rightarrow> 'f body \<Rightarrow> 'f state \<Rightarrow> 'f response \<times> 'f state" where
  "forgot_password env io b s =
     (case email b of
        None \<Rightarrow> (msg 400 ''Informe o email.'', s)
      | Some e \<Rightarrow>
          if e = [] then (msg 400 ''Informe o email.'', s)
          else if query_rejects io 0 then (msg 500 ''Erro ao enviar email.'', s)
          else (case map (\<lambda>u. (u_id u, u_name u)) (select_users e s) of
                  [] \<Rightarrow> (msg 400 (''Email n'' @ [CHR 0xE3] @ ''o encontrado.''), s)
                | user # _ \<Rightarrow>
                    let code = generateResetCode env io;
                        expires = Date_now io + 15 * 60 * 1000
                    in if query_rejects io 1 then (msg 500 ''Erro ao enviar email.'', s)
                       else
                         let s1 = update_reset code expires (fst user) s;
                             s2 = s1\<lparr>sendMail_calls :=
                                       sendMail_calls s1 @ [reset_mail env e (snd user) code]\<rparr>
                         in if sendMail_rejects io
                            then (msg 500 ''Erro ao enviar email.'', s2)
                            else (msg 200 (''C'' @ [CHR 0xF3] @ ''digo enviado para o email.''),
                                  s2)))"

definition reset_password :: "'f env \<Rightarrow> io \<Rightarrow> 'f body \<Rightarrow> 'f state \<Rightarrow> 'f response \<times> 'f state" where
  "reset_password env io b s =
     (if falsy (email b) \<or> falsy (token b) \<or> falsy (newPassword b)
      then (msg 400 ''Dados incompletos.'', s)
      else case (email b, token b, newPassword b) of
        (Some e, Some t, Some np) \<Rightarrow>
          if length np < 6 then (msg 400 ''Senha curta demais.'', s)
          else if query_rejects io 0 then (msg 500 ''Erro no servidor.'', s)
          else (case map (\<lambda>u. (u_id u, u_reset_token u, u_reset_expires u)) (select_users e s) of
                  [] \<Rightarrow> (msg 400 (''Usu'' @ [CHR 0xE1] @ ''rio n'' @ [CHR 0xE3] @ ''o encontrado.''), s)
                | (user_id, user_reset_token, user_reset_expires) # _ \<Rightarrow>
                    if Some t \<noteq> user_reset_token
                    then (msg 400 (''C'' @ [CHR 0xF3] @ ''digo inv'' @ [CHR 0xE1] @ ''lido.''), s)
                    else
                      let now = Date_now io in
                      if now > new_Date user_reset_expires
                      then (msg 400 (''C'' @ [CHR 0xF3] @ ''digo expirado.''), s)
                      else
                        let newHash = bcrypt_hash env np 10 (bcrypt_salt io) in
                        if query_rejects io 1 then (msg 500 ''Erro no servidor.'', s)
                        else (msg 200 ''Senha alterada com sucesso.'',
                              update_password newHash user_id s))
      | _ \<Rightarrow> (msg 400 ''Dados incompletos.'', s))"

subsection \<open>The statements on \<^verbatim>\<open>game_stats\<close>\<close>

text \<open>
  \<^verbatim>\<open>SELECT * FROM game_stats WHERE user_id = $1 AND game_type = $2\<close>. An absent
  \<^verbatim>\<open>gameType\<close> is sent as \<^verbatim>\<open>NULL\<close>, and \<^verbatim>\<open>game_type = NULL\<close> holds of no row.
\<close>

definition select_game_stats :: "nat \<Rightarrow> string option \<Rightarrow> 'f state \<Rightarrow> 'f game_stats_row list" where
  "select_game_stats userId g s =
     filter (\<lambda>r. gs_user_id r = userId \<and> g \<noteq> None \<and> gs_game_type r = g) (game_stats s)"

text \<open>
  \<^verbatim>\<open>INSERT INTO game_stats (user_id, game_type, total_hours, high_score, total_score)
  VALUES ($1, $2, $3, $4, $5)\<close>.
\<close>

definition insert_game_stats ::
  "nat \<Rightarrow> string option \<Rightarrow> 'f \<Rightarrow> int \<Rightarrow> int \<Rightarrow> 'f state \<Rightarrow> 'f state" where
  "insert_game_stats userId g hours highScore totalScore s =
     s\<lparr>game_stats :=
         game_stats s @
           [\<lparr>gs_id = game_stats_id_seq s, gs_user_id = userId, gs_game_type = g,
             gs_total_hours = hours, gs_high_score = highScore, gs_total_score = totalScore\<rparr>],
       game_stats_id_seq := Suc (game_stats_id_seq s)\<rparr>"

text \<open>
  \<^verbatim>\<open>UPDATE game_stats SET total_hours = $1, total_score = $2, high_score = $3
  WHERE id = $4\<close>.
\<close>

definition update_game_stats :: "'f \<Rightarrow> int \<Rightarrow> int \<Rightarrow> nat \<Rightarrow> 'f state \<Rightarrow> 'f state" where
  "update_game_stats hours totalScore highScore i s =
     s\<lparr>game_stats :=
         map (\<lambda>r. if gs_id r = i
                   then r\<lparr>gs_total_hours := hours, gs_total_score := totalScore,
                          gs_high_score := highScore\<rparr>
                   else r)
           (game_stats s)\<rparr>"

text \<open>
  \<^verbatim>\<open>SELECT u.name, gs.high_score FROM game_stats gs JOIN users u ON gs.user_id = u.id
  WHERE gs.game_type = $1 ORDER BY gs.high_score DESC LIMIT 1\<close>: first the rows of
  the join, then the first of them in descending order. Among rows of equal
  \<^verbatim>\<open>high_score\<close> SQL leaves the order open; the model keeps the order of the tables.
\<close>

definition ranking_rows :: "string \<Rightarrow> 'f state \<Rightarrow> (string \<times> int) list" where
  "ranking_rows game s =
     [(u_name u, gs_high_score gs).
        gs \<leftarrow> game_stats s, u \<leftarrow> users s,
        gs_user_id gs = u_id u \<and> gs_game_type gs = Some game]"

definition select_top :: "string \<Rightarrow> 'f state \<Rightarrow> (string \<times> int) list" where
  "select_top game s = take 1 (sort_key (\<lambda>r. - snd r) (ranking_rows game s))"

subsection \<open>The routes of \<^verbatim>\<open>/stats\<close>\<close>

text \<open>\<^verbatim>\<open>parseInt(score, 10) || 0\<close>: \<^verbatim>\<open>NaN\<close> and zero are falsy.\<close>

definition parseInt_or_0 :: "jsval \<Rightarrow> number" where
  "parseInt_or_0 v = (case parseInt v of None \<Rightarrow> Finite 0 | Some n \<Rightarrow> n)"

text \<open>
  \<open>user\<close> is \<^verbatim>\<open>req.user\<close>, the payload the middleware decoded. When \<open>numScore\<close>, the
  new total or the new high score is \<^verbatim>\<open>Infinity\<close>, the \<^verbatim>\<open>INSERT\<close> or \<^verbatim>\<open>UPDATE\<close> rejects.
\<close>

definition stats_update ::
  "'f env \<Rightarrow> io \<Rightarrow> 'f body \<Rightarrow> jwt_claims \<Rightarrow> 'f state \<Rightarrow> 'f response \<times> 'f state" where
  "stats_update env io b user s =
     (let userId = payload_id user;
          numScore = parseInt_or_0 (score b);
          numDuration = parseFloat_or_0 env (duration b)
      in if query_rejects io 0 then (msg 500 ''Erro ao salvar stats.'', s)
         else (case select_game_stats userId (gameType b) s of
                 [] \<Rightarrow>
                   (case numScore of
                      Finite n \<Rightarrow>
                        if query_rejects io 1 then (msg 500 ''Erro ao salvar stats.'', s)
                        else (msg 200 ''Stats updated'',
                              insert_game_stats userId (gameType b) numDuration n n s)
                    | Infinite negative \<Rightarrow> (msg 500 ''Erro ao salvar stats.'', s))
               | current # _ \<Rightarrow>
                   let newTotalHours =
                         float_add env (parseFloat_column env (gs_total_hours current)) numDuration;
                       newTotalScore =
                         number_add (parseInt_Number (of_int (gs_total_score current))) numScore;
                       newHighScore =
                         (if number_greater numScore (gs_high_score current) then numScore
                          else Finite (gs_high_score current))
                   in (case (newTotalScore, newHighScore) of
                         (Finite totalScore, Finite highScore) \<Rightarrow>
                           if query_rejects io 1 then (msg 500 ''Erro ao salvar stats.'', s)
                           else (msg 200 ''Stats updated'',
                                 update_game_stats newTotalHours totalScore highScore
                                   (gs_id current) s)
                       | _ \<Rightarrow> (msg 500 ''Erro ao salvar stats.'', s))))"

definition games :: "string list" where
  "games = [''matematica'', ''computacao'', ''portugues'', ''historia'']"

text \<open>The names every object inherits from \<^verbatim>\<open>Object.prototype\<close>.\<close>

definition Object_prototype :: "string list" where
  "Object_prototype =
     [''constructor'', ''__defineGetter__'', ''__defineSetter__'', ''hasOwnProperty'',
      ''__lookupGetter__'', ''__lookupSetter__'', ''isPrototypeOf'', ''propertyIsEnumerable'',
      ''toString'', ''valueOf'', ''__proto__'', ''toLocaleString'']"

text \<open>\<^verbatim>\<open>obj[k] !== undefined\<close> for an object literal whose own values are numbers.\<close>

definition has_property :: "(string \<times> 'a) list \<Rightarrow> string \<Rightarrow> bool" where
  "has_property obj k = (k \<in> set (map fst obj) \<or> k \<in> set Object_prototype)"

text \<open>
  \<^verbatim>\<open>obj[k] = v\<close> with a number \<open>v\<close>: an own property is overwritten in place, a new one
  comes last, and assigning a number to \<^verbatim>\<open>__proto__\<close> changes nothing.
\<close>

definition set_property :: "(string \<times> 'a) list \<Rightarrow> string \<Rightarrow> 'a \<Rightarrow> (string \<times> 'a) list" where
  "set_property obj k v =
     (if k = ''__proto__'' then obj
      else if k \<in> set (map fst obj) then map (\<lambda>(k', v'). if k' = k then (k', v) else (k', v')) obj
      else obj @ [(k, v)])"

text \<open>The body of \<^verbatim>\<open>result.rows.forEach\<close> in \<^verbatim>\<open>/stats/me\<close>, on the three objects of \<^verbatim>\<open>stats\<close>.\<close>

definition stats_row ::
  "'f env \<Rightarrow>
   (string \<times> 'f json) list \<times> (string \<times> 'f json) list \<times> (string \<times> 'f json) list \<Rightarrow>
   'f game_stats_row \<Rightarrow>
   (string \<times> 'f json) list \<times> (string \<times> 'f json) list \<times> (string \<times> 'f json) list" where
  "stats_row env stats row =
     (case stats of (scores, highScores, hours) \<Rightarrow>
        (case gs_game_type row of
           None \<Rightarrow> stats
         | Some type \<Rightarrow>
             if has_property scores type
             then (set_property scores type
                     (JInt (parseInt_Number (of_int (gs_total_score row)))),
                   set_property highScores type
                     (JInt (parseInt_Number (of_int (gs_high_score row)))),
                   set_property hours type (JFloat (parseFloat_column env (gs_total_hours row))))
             else stats))"

definition stats_me :: "'f env \<Rightarrow> io \<Rightarrow> jwt_claims \<Rightarrow> 'f state \<Rightarrow> 'f response \<times> 'f state" where
  "stats_me env io user s =
     (let userId = payload_id user in
      if query_rejects io 0 then (msg 500 ''Erro ao buscar perfil.'', s)
      else
        let rows = filter (\<lambda>r. gs_user_id r = userId) (game_stats s);
            zero = map (\<lambda>g. (g, JInt 0)) games
        in case foldl (stats_row env) (zero, zero, zero) rows of
             (scores, highScores, hours) \<Rightarrow>
               (\<lparr>status = 200,
                 json = JObj [(''scores'', JObj scores), (''highScores'', JObj highScores),
                              (''hours'', JObj hours)]\<rparr>,
                s))"

text \<open>One entry of \<^verbatim>\<open>ranking\<close>.\<close>

definition ranking_entry :: "(string \<times> int) list \<Rightarrow> 'f json" where
  "ranking_entry rows =
     (case rows of
        [] \<Rightarrow> JObj [(''name'', JStr ''---''), (''high_score'', JInt 0)]
      | row # _ \<Rightarrow> JObj [(''name'', JStr (fst row)), (''high_score'', JInt (snd row))])"

text \<open>
  The loop \<^verbatim>\<open>for (const game of games)\<close>; \<open>k\<close> counts the queries of the request, and
  \<open>None\<close> is a query that rejected.
\<close>

fun ranking_loop :: "io \<Rightarrow> 'f state \<Rightarrow> nat \<Rightarrow> string list \<Rightarrow> (string \<times> 'f json) list option" where
  "ranking_loop io s k [] = Some []"
| "ranking_loop io s k (game # rest) =
     (if query_rejects io k then None
      else (case ranking_loop io s (Suc k) rest of
              None \<Rightarrow> None
            | Some ranking \<Rightarrow> Some ((game, ranking_entry (select_top game s)) # ranking)))"

definition stats_ranking :: "io \<Rightarrow> 'f state \<Rightarrow> 'f response \<times> 'f state" where
  "stats_ranking io s =
     (case ranking_loop io s 0 games of
        None \<Rightarrow> (msg 500 ''Erro no ranking.'', s)
      | Some ranking \<Rightarrow> (\<lparr>status = 200, json = JObj ranking\<rparr>, s))"

subsection \<open>The application\<close>

text \<open>
  The routes of \<^verbatim>\<open>/auth\<close> and \<^verbatim>\<open>/stats\<close> with their middleware, at the paths as they
  are registered. \<open>None\<close> is a request the model does not cover (any other path or
  method).
\<close>

definition app ::
  "'f env \<Rightarrow> io \<Rightarrow> 'f request \<Rightarrow> 'f state \<Rightarrow> ('f response \<times> 'f state) option" where
  "app env io req s =
     (if req_method req = POST \<and> req_path req = ''/auth/register''
        then Some (register env io (body req) s)
      else if req_method req = POST \<and> req_path req = ''/auth/login''
        then Some (login env io (body req) s)
      else if req_method req = POST \<and> req_path req = ''/auth/forgot-password''
        then Some (forgot_password env io (body req) s)
      else if req_method req = POST \<and> req_path req = ''/auth/reset-password''
        then Some (reset_password env io (body req) s)
      else if req_method req = POST \<and> req_path req = ''/stats/update''
        then Some (case authenticateToken env io req of
                     Inl res \<Rightarrow> (res, s)
                   | Inr user \<Rightarrow> stats_update env io (body req) user s)
      else if req_method req = GET \<and> req_path req = ''/stats/me''
        then Some (case authenticateToken env io req of
                     Inl res \<Rightarrow> (res, s)
                   | Inr user \<Rightarrow> stats_me env io user s)
      else if req_method req = GET \<and> req_path req = ''/stats/ranking''
        then Some (stats_ranking io s)
      else None)"

subsection \<open>The invariant of the reset fields\<close>

text \<open>
  The data model's invariant on a row of \<^verbatim>\<open>users\<close>: \<^verbatim>\<open>reset_token\<close> and
  \<^verbatim>\<open>reset_expires\<close> are both \<^verbatim>\<open>NULL\<close> or both set.
\<close>

definition reset_fields_paired :: "users_row \<Rightarrow> bool" where
  "reset_fields_paired u = ((u_reset_token u = None) = (u_reset_expires u = None))"

definition reset_invariant :: "'f state \<Rightarrow> bool" where
  "reset_invariant s = list_all reset_fields_paired (users s)"

subsection \<open>An instance\<close>

text \<open>
  A small instance of the parameters, to run the handlers on concrete requests: hours
  are whole numbers, the hash of a password is the salt followed by the password, and a
  token is the secret, the \<^verbatim>\<open>id\<close> in unary and the email, separated by dots. The instance
  checks no expiry and writes every integer as its decimal numeral; no theorem below
  relies on that.
\<close>

definition demo_env :: "int env" where
  "demo_env =
     \<lparr>JWT_SECRET = Some ''k'',
      MAIL_FROM = Some ''noreply@profsmart.test'',
      bcrypt_hash = (\<lambda>data rounds salt. salt @ data),
      bcrypt_compare = (\<lambda>data hash. drop (length hash - length data) hash = data),
      jwt_sign = (\<lambda>p secret expiresIn now.
         case secret of
           None \<Rightarrow> None
         | Some k \<Rightarrow>
             Some (k @ ''.'' @ replicate (payload_id p) CHR ''I'' @ ''.'' @ payload_email p)),
      jwt_verify = (\<lambda>tok secret now.
         case secret of
           None \<Rightarrow> None
         | Some k \<Rightarrow>
             if take (Suc (length k)) tok = k @ ''.''
             then let rest = drop (Suc (length k)) tok;
                      n = length (takeWhile (\<lambda>c. c = CHR ''I'') rest)
                  in Some \<lparr>payload_id = n, payload_email = drop (Suc n) rest,
                           claim_iat = 0, claim_exp = 0\<rparr>
             else None),
      parseFloat_or_0 = (\<lambda>v. v),
      parseFloat_column = (\<lambda>h. h),
      float_add = (\<lambda>a b. a + b),
      toString_large = decimal\<rparr>"

definition demo_io :: io where
  "demo_io = \<lparr>Date_now = 1700000000000, Math_random = 1 / 4, bcrypt_salt = ''NaCl'',
              query_rejects = (\<lambda>k. False), sendMail_rejects = False\<rparr>"

definition no_body :: "int body" where
  "no_body = \<lparr>name = None, email = None, password = Undefined, token = None,
              newPassword = None,
              gameType = None, score = Undefined, duration = 0\<rparr>"

definition ana :: users_row where
  "ana = \<lparr>u_id = 1, u_name = ''Ana'', u_email = ''ana@x.com'', u_password_hash = ''NaClsecret1'',
          u_reset_token = Some ''325000'', u_reset_expires = Some 1700000900000\<rparr>"

definition demo_state :: "int state" where
  "demo_state =
     \<lparr>users = [ana],
      game_stats = [\<lparr>gs_id = 1, gs_user_id = 1, gs_game_type = Some ''matematica'',
                     gs_total_hours = 2, gs_high_score = 80, gs_total_score = 200\<rparr>],
      users_id_seq = 2, game_stats_id_seq = 2, sendMail_calls = []\<rparr>"

definition empty_state :: "int state" where
  "empty_state = \<lparr>users = [], game_stats = [], users_id_seq = 1, game_stats_id_seq = 1,
                  sendMail_calls = []\<rparr>"

definition bia :: users_row where
  "bia = \<lparr>u_id = 2, u_name = ''Bia'', u_email = ''bia@x.com'', u_password_hash = ''NaClhunter22'',
          u_reset_token = None, u_reset_expires = None\<rparr>"

definition league_state :: "int state" where
  "league_state =
     \<lparr>users = [ana, bia],
      game_stats =
        [\<lparr>gs_id = 1, gs_user_id = 1, gs_game_type = Some ''matematica'',
          gs_total_hours = 2, gs_high_score = 80, gs_total_score = 200\<rparr>,
         \<lparr>gs_id = 2, gs_user_id = 2, gs_game_type = Some ''matematica'',
          gs_total_hours = 1, gs_high_score = 95, gs_total_score = 95\<rparr>,
         \<lparr>gs_id = 3, gs_user_id = 2, gs_game_type = Some ''portugues'',
          gs_total_hours = 3, gs_high_score = 40, gs_total_score = 70\<rparr>],
      users_id_seq = 3, game_stats_id_seq = 4, sendMail_calls = []\<rparr>"

definition ana_claims :: jwt_claims where
  "ana_claims = \<lparr>payload_id = 1, payload_email = ''ana@x.com'', claim_iat = 0, claim_exp = 0\<rparr>"

section \<open>Properties\<close>

subsection \<open>Decimal numerals\<close>

lemma digits_small: "n < 10 \<Longrightarrow> digits n = [char_of (48 + n)]"
  by (subst digits.simps) simp

lemma digits_big: "10 \<le> n \<Longrightarrow> digits n = digits (n div 10) @ [char_of (48 + n mod 10)]"
  by (subst digits.simps) simp

lemma digits_nonempty: "digits n \<noteq> []"
  by (cases "n < 10") (simp_all add: digits_small digits_big)

lemma digits_all_digit: "c \<in> set (digits n) \<Longrightarrow> is_digit c"
proof (induction n arbitrary: c rule: digits.induct)
  case (1 n)
  show ?case
  proof (cases "n < 10")
    case True
    with "1.prems" show ?thesis
      by (simp add: digits_small is_digit_def)
  next
    case False
    have "n mod 10 < 10" by simp
    with False "1.prems" "1.IH" show ?thesis
      by (auto simp add: digits_big is_digit_def)
  qed
qed

lemma digits_value_snoc:
  "digits_value (ds @ [c]) = 10 * digits_value ds + ((of_char c :: nat) - 48)"
  by (simp add: digits_value_def)

lemma digits_value_digits: "digits_value (digits n) = n"
proof (induction n rule: digits.induct)
  case (1 n)
  show ?case
  proof (cases "n < 10")
    case True
    then show ?thesis
      by (simp add: digits_small digits_value_def)
  next
    case False
    have "n mod 10 < 10" by simp
    with False "1.IH" show ?thesis
      by (simp add: digits_big digits_value_snoc)
  qed
qed

lemma length_digits_le: "n < 10 ^ Suc k \<Longrightarrow> length (digits n) \<le> Suc k"
proof (induction k arbitrary: n)
  case 0
  then show ?case by (simp add: digits_small)
next
  case (Suc k)
  show ?case
  proof (cases "n < 10")
    case True
    then show ?thesis by (simp add: digits_small)
  next
    case False
    from Suc.prems have "n div 10 < 10 ^ Suc k"
      by (simp add: less_mult_imp_div_less mult.commute)
    from Suc.IH [OF this] False show ?thesis by (simp add: digits_big)
  qed
qed

lemma length_digits_gt: "10 ^ k \<le> n \<Longrightarrow> k < length (digits n)"
proof (induction k arbitrary: n)
  case 0
  show ?case using digits_nonempty [of n] by (cases "digits n") simp_all
next
  case (Suc k)
  then have "10 ^ k \<le> n div 10"
    by (simp add: less_eq_div_iff_mult_less_eq mult.commute)
  moreover from Suc.prems have "10 \<le> n"
    by (metis One_nat_def le_trans one_le_numeral one_le_power mult.right_neutral
        mult_le_mono2 power_Suc)
  ultimately show ?case using Suc.IH [of "n div 10"]
    by (simp add: digits_big)
qed

text \<open>\<^verbatim>\<open>parseInt\<close> reads a decimal numeral back.\<close>

lemma parseInt_string_decimal: "parseInt_string (decimal n) = Some n"
proof -
  have all: "\<forall>x\<in>set (digits m). is_digit x" for m
    using digits_all_digit by blast
  have tw: "takeWhile is_digit (digits m) = digits m" for m
    using all [of m] by simp
  have pos: "parseInt_string (digits m) = Some (int m)" for m
  proof -
    obtain c cs where d: "digits m = c # cs"
      using digits_nonempty [of m] by (cases "digits m") auto
    have c: "is_digit c" using all [of m] d by simp
    then have ns: "\<not> is_space c" and nm: "c \<noteq> CHR ''-''" and np: "c \<noteq> CHR ''+''"
      by (auto simp: is_digit_def is_space_def)
    have "parseInt_string (c # cs) = Some (int (digits_value (c # cs)))"
      using ns nm np tw [of m, unfolded d] by (simp add: parseInt_string_def)
    then show ?thesis using d digits_value_digits [of m] by simp
  qed
  have neg: "parseInt_string (CHR ''-'' # digits m) = Some (- int m)" for m
    using digits_nonempty [of m]
    by (simp add: parseInt_string_def is_space_def tw digits_value_digits)
  show ?thesis
  proof (cases "n < 0")
    case True
    then show ?thesis using neg [of "nat (- n)"] by (simp add: decimal_def)
  next
    case False
    then show ?thesis using pos [of "nat n"] by (simp add: decimal_def)
  qed
qed

lemma six_digits:
  assumes "100000 \<le> n" "n \<le> 999999"
  shows "length (decimal n) = 6" and "\<forall>c\<in>set (decimal n). is_digit c"
proof -
  from assms have n: "decimal n = digits (nat n)" by (simp add: decimal_def)
  from assms have "10 ^ 5 \<le> nat n" and "nat n < 10 ^ Suc 5" by simp_all
  then have "5 < length (digits (nat n))" and "length (digits (nat n)) \<le> Suc 5"
    using length_digits_gt length_digits_le by blast+
  then show "length (decimal n) = 6" by (simp add: n)
  show "\<forall>c\<in>set (decimal n). is_digit c"
    using digits_all_digit by (simp add: n)
qed

lemma char_of_digit:
  "char_of (48 :: nat) = CHR ''0''" "char_of (49 :: nat) = CHR ''1''"
  "char_of (50 :: nat) = CHR ''2''" "char_of (51 :: nat) = CHR ''3''"
  "char_of (52 :: nat) = CHR ''4''" "char_of (53 :: nat) = CHR ''5''"
  "char_of (54 :: nat) = CHR ''6''" "char_of (55 :: nat) = CHR ''7''"
  "char_of (56 :: nat) = CHR ''8''" "char_of (57 :: nat) = CHR ''9''"
  by (simp_all add: char_of_eq_iff)

subsection \<open>Rounding to a double\<close>

lemma round_half_even_of_int: "round_half_even (of_int k) = k"
  by (simp add: round_half_even_def)

lemma round_half_even_ge:
  assumes "of_int k \<le> x"
  shows "k \<le> round_half_even x"
proof -
  from assms have "k \<le> \<lfloor>x\<rfloor>" by (simp add: le_floor_iff)
  then show ?thesis by (simp add: round_half_even_def Let_def)
qed

lemma round_half_even_le:
  assumes "x \<le> of_int k"
  shows "round_half_even x \<le> k"
proof (cases "x = of_int k")
  case True
  then show ?thesis by (simp add: round_half_even_of_int)
next
  case False
  with assms have "x < of_int k" by simp
  then have "\<lfloor>x\<rfloor> < k" by (simp add: floor_less_iff)
  then show ?thesis by (simp add: round_half_even_def Let_def)
qed

lemma binade_less: 
  assumes "0 < x" "x < 2 ^ n" "0 < n"
  shows "binade x < int n"
proof (cases "1 \<le> x")
  case True
  from assms(2) have "\<lfloor>x\<rfloor> < 2 ^ n" by (simp add: floor_less_iff)
  then have "bitlen \<lfloor>x\<rfloor> \<le> int n"
    by (simp add: bitlen_le_iff_power)
  with True show ?thesis by (simp add: binade_def)
next
  case False
  have "0 \<le> bitlen (\<lceil>1 / x\<rceil> - 1)" by (rule bitlen_nonneg)
  with False assms(3) show ?thesis by (simp add: binade_def)
qed

lemma binade_eq:
  assumes "2 ^ n \<le> x" "x < 2 ^ Suc n"
  shows "binade x = int n"
proof -
  from assms(1) have 1: "1 \<le> x"
    by (meson one_le_numeral one_le_power order_trans)
  from assms(2) have "\<lfloor>x\<rfloor> < 2 ^ Suc n" by (simp add: floor_less_iff)
  then have le: "bitlen \<lfloor>x\<rfloor> \<le> int (Suc n)"
    by (simp add: bitlen_le_iff_power nat_add_distrib)
  from assms(1) have "2 ^ n \<le> \<lfloor>x\<rfloor>" by (simp add: le_floor_iff)
  then have ge: "int (Suc n) \<le> bitlen \<lfloor>x\<rfloor>"
    by (simp add: bitlen_ge_iff_power nat_add_distrib)
  from le ge 1 show ?thesis by (simp add: binade_def)
qed

lemma binade_half:
  assumes "1 / 2 \<le> x" "x < 1"
  shows "binade x = - 1"
proof -
  from assms have pos: "0 < x" by simp
  from assms pos have "1 < 1 / x" by (simp add: field_simps)
  moreover from assms pos have "1 / x \<le> 2" by (simp add: field_simps)
  ultimately have "\<lceil>1 / x\<rceil> = 2"
    by (simp add: ceiling_eq_iff)
  then show ?thesis using assms(2) by (simp add: binade_def compute_bitlen)
qed


lemma power_int_split:
  assumes "e \<le> E"
  shows "(2::rat) powi (E - 52) = 2 ^ nat (E - e) * 2 powi (e - 52)"
proof -
  have "(2::rat) powi (E - 52) = 2 powi ((E - e) + (e - 52))" by simp
  also have "\<dots> = 2 powi (E - e) * 2 powi (e - 52)" by (rule power_int_add) simp
  also have "(2::rat) powi (E - e) = 2 ^ nat (E - e)" using assms by (simp add: power_int_def)
  finally show ?thesis .
qed

lemma fl_pos:
  "0 < x \<Longrightarrow>
   fl x = of_int (round_half_even (x / 2 powi (max (binade x) (- 1022) - 52))) *
            2 powi (max (binade x) (- 1022) - 52)"
  by (simp add: fl_def Let_def)

lemma fl_grid_le:
  assumes "0 < x" "binade x \<le> E" "- 1022 \<le> E"
    and d: "of_int k * 2 powi (E - 52) \<le> x"
  shows "of_int k * 2 powi (E - 52) \<le> fl x"
proof -
  define e where "e = max (binade x) (- 1022)"
  define q :: rat where "q = 2 powi (e - 52)"
  define k' where "k' = k * 2 ^ nat (E - e)"
  have e: "e \<le> E" using assms(2,3) by (simp add: e_def)
  have q: "0 < q" by (simp add: q_def)
  have kq: "of_int k * 2 powi (E - 52) = of_int k' * q"
    by (simp add: power_int_split [OF e] k'_def q_def)
  from d have "of_int k' * q \<le> x" by (simp add: kq)
  then have "of_int k' \<le> x / q" using q by (simp add: pos_le_divide_eq)
  then have "k' \<le> round_half_even (x / q)" by (rule round_half_even_ge)
  then have "of_int k' * q \<le> of_int (round_half_even (x / q)) * q" using q by simp
  moreover have "fl x = of_int (round_half_even (x / q)) * q"
    using assms(1) by (simp add: fl_pos q_def e_def)
  ultimately show ?thesis by (simp add: kq)
qed

lemma fl_grid_ge:
  assumes "0 < x" "binade x \<le> E" "- 1022 \<le> E"
    and d: "x \<le> of_int k * 2 powi (E - 52)"
  shows "fl x \<le> of_int k * 2 powi (E - 52)"
proof -
  define e where "e = max (binade x) (- 1022)"
  define q :: rat where "q = 2 powi (e - 52)"
  define k' where "k' = k * 2 ^ nat (E - e)"
  have e: "e \<le> E" using assms(2,3) by (simp add: e_def)
  have q: "0 < q" by (simp add: q_def)
  have kq: "of_int k * 2 powi (E - 52) = of_int k' * q"
    by (simp add: power_int_split [OF e] k'_def q_def)
  from d have "x \<le> of_int k' * q" by (simp add: kq)
  then have "x / q \<le> of_int k'" using q by (simp add: pos_divide_le_eq)
  then have "round_half_even (x / q) \<le> k'" by (rule round_half_even_le)
  then have "of_int (round_half_even (x / q)) * q \<le> of_int k' * q" using q by simp
  moreover have "fl x = of_int (round_half_even (x / q)) * q"
    using assms(1) by (simp add: fl_pos q_def e_def)
  ultimately show ?thesis by (simp add: kq)
qed

lemma fl_nonneg:
  assumes "0 \<le> x"
  shows "0 \<le> fl x"
proof (cases "x = 0")
  case True
  then show ?thesis by (simp add: fl_def)
next
  case False
  with assms have "0 < x" by simp
  from fl_grid_le [OF this, of "max (binade x) (- 1022)" 0] assms show ?thesis by simp
qed

lemma double_below_1:
  assumes "fl r = r" "0 \<le> r" "r < 1"
  shows "r \<le> 1 - 1 / 2 ^ 53"
proof (cases "1 / 2 \<le> r")
  case False
  then have "r < 1 / 2" by simp
  also have "(1 / 2 :: rat) \<le> 1 - 1 / 2 ^ 53" by simp
  finally show ?thesis by simp
next
  case True
  then have pos: "0 < r" by simp
  define m where "m = round_half_even (r / 2 powi (- 53))"
  have "binade r = - 1" using True assms(3) by (rule binade_half)
  then have "fl r = of_int m * 2 powi (- 53)"
    using pos by (simp add: fl_pos m_def)
  with assms(1) have r: "r = of_int m / 2 ^ 53"
    by (simp add: power_int_minus_divide)
  with assms(3) have "(of_int m :: rat) < 2 ^ 53" by simp
  then have "m < 2 ^ 53" by (simp add: of_int_less_numeral_power_cancel_iff)
  then have "m \<le> 2 ^ 53 - 1" by simp
  then have "(of_int m :: rat) \<le> of_int (2 ^ 53 - 1)" by (simp only: of_int_le_iff)
  then have "(of_int m :: rat) \<le> 2 ^ 53 - 1" by simp
  then show ?thesis by (simp add: r field_simps)
qed


lemma grid_33: "(of_int k :: rat) * 2 powi (19 - 52) = of_int k / 2 ^ 33"
  by (simp add: power_int_minus_divide)

lemma product_rounds_below:
  assumes "0 \<le> x" "x \<le> 900000 * (1 - 1 / 2 ^ 53)"
  shows "fl x \<le> 900000 - 1 / 2 ^ 33"
proof -
  have D: "(900000 - 1 / 2 ^ 33 :: rat) = of_int (900000 * 2 ^ 33 - 1) * 2 powi (19 - 52)"
    unfolding grid_33 by simp
  from assms(2) have lt: "x < 2 ^ 20" by simp
  consider "x = 0" | "0 < x" "x \<le> 900000 - 1 / 2 ^ 33" | "900000 - 1 / 2 ^ 33 < x"
    using assms(1) by fastforce
  then show ?thesis
  proof cases
    case 1
    then show ?thesis by (simp add: fl_def)
  next
    case 2
    from binade_less [OF 2(1) lt] have "binade x \<le> 19" by simp
    from fl_grid_ge [OF 2(1) this, of "900000 * 2 ^ 33 - 1"] 2(2) show ?thesis
      unfolding D [symmetric] by simp
  next
    case 3
    then have pos: "0 < x" and ge: "2 ^ 19 \<le> x" by simp_all
    from ge lt have b: "binade x = 19" using binade_eq [of 19 x] by simp
    define y where "y = x * 2 ^ 33"
    from 3 have lo: "7730941132799999 < y" by (simp add: y_def field_simps)
    from assms(2) have hi: "y \<le> 7730941132800000 - 900000 / 2 ^ 20"
      by (simp add: y_def field_simps)
    have fl: "\<lfloor>y\<rfloor> = 7730941132799999"
      using lo hi by (simp add: floor_eq_iff)
    have "y - of_int \<lfloor>y\<rfloor> < 1 / 2" using hi by (simp add: fl)
    then have "round_half_even y = 7730941132799999"
      by (simp add: round_half_even_def Let_def fl)
    then have "fl x = 7730941132799999 / 2 ^ 33"
      using pos by (simp add: fl_pos b power_int_minus_divide y_def)
    then show ?thesis by simp
  qed
qed

lemma reset_code_range:
  assumes "fl r = r" "0 \<le> r" "r < 1"
  shows "100000 \<le> \<lfloor>fl (100000 + fl (r * 900000))\<rfloor>"
    and "\<lfloor>fl (100000 + fl (r * 900000))\<rfloor> \<le> 999999"
proof -
  define s where "s = 100000 + fl (r * 900000)"
  from double_below_1 [OF assms] have "r * 900000 \<le> 900000 * (1 - 1 / 2 ^ 53)" by simp
  moreover from assms(2) have "0 \<le> r * 900000" by simp
  ultimately have y: "0 \<le> fl (r * 900000)" "fl (r * 900000) \<le> 900000 - 1 / 2 ^ 33"
    using fl_nonneg product_rounds_below by blast+
  then have s: "0 < s" "100000 \<le> s" "s \<le> 1000000 - 1 / 2 ^ 33" "s < 2 ^ 20"
    by (simp_all add: s_def)
  from binade_less [OF s(1,4)] have b: "binade s \<le> 19" by simp
  have "of_int (100000 * 2 ^ 33) * 2 powi (19 - 52) \<le> fl s"
    using s(2) by (intro fl_grid_le [OF s(1) b]) (simp_all add: grid_33)
  then have lo: "100000 \<le> fl s" by (simp add: grid_33)
  have "fl s \<le> of_int (1000000 * 2 ^ 33 - 1) * 2 powi (19 - 52)"
    using s(3) by (intro fl_grid_ge [OF s(1) b]) (simp_all add: grid_33 field_simps)
  then have hi: "fl s < 1000000" by (simp add: grid_33 field_simps)
  from lo show "100000 \<le> \<lfloor>fl (100000 + fl (r * 900000))\<rfloor>"
    by (simp add: s_def le_floor_iff)
  from hi have "\<lfloor>fl s\<rfloor> < 1000000" by (simp add: floor_less_iff)
  then show "\<lfloor>fl (100000 + fl (r * 900000))\<rfloor> \<le> 999999"
    by (simp add: s_def)
qed

lemma fl_of_int_safe:
  assumes "\<bar>n\<bar> \<le> 2 ^ 53"
  shows "fl (of_int n) = of_int n"
proof (cases "n = 0")
  case True
  then show ?thesis by (simp add: fl_def)
next
  case False
  define a where "a = \<bar>n\<bar>"
  define e where "e = bitlen a - 1"
  from False have a: "0 < a" "1 \<le> a" by (simp_all add: a_def)
  have b: "binade \<bar>of_int n\<bar> = e"
    using a by (simp add: binade_def e_def a_def flip: of_int_abs)
  from a have "1 \<le> bitlen a" by (subst bitlen_ge_iff_power) simp
  then have e0: "0 \<le> e" by (simp add: e_def)
  have "a < 2 ^ 54" using assms by (simp add: a_def)
  then have e53: "e \<le> 53" by (simp add: e_def bitlen_le_iff_power)
  have "\<exists>m. (of_int n :: rat) / 2 powi (e - 52) = of_int m"
  proof (cases "e \<le> 52")
    case True
    then have "(2::rat) powi (e - 52) = 1 / 2 ^ nat (52 - e)"
      by (simp add: power_int_def power_one_over)
    then have "(of_int n :: rat) / 2 powi (e - 52) = of_int (n * 2 ^ nat (52 - e))"
      by simp
    then show ?thesis ..
  next
    case False
    with e53 have e: "e = 53" by simp
    then have "54 \<le> bitlen a" by (simp add: e_def)
    then have "2 ^ 53 \<le> a" by (simp add: bitlen_ge_iff_power)
    with assms have "a = 2 ^ 53" by (simp add: a_def)
    then have "n = 2 ^ 53 \<or> n = - (2 ^ 53)" by (simp add: a_def abs_if split: if_splits)
    then have "(of_int n :: rat) / 2 powi (e - 52) = of_int (n div 2)"
      by (auto simp add: e)
    then show ?thesis ..
  qed
  then obtain m where m: "(of_int n :: rat) / 2 powi (e - 52) = of_int m" ..
  have "fl (of_int n) = of_int (round_half_even (of_int n / 2 powi (e - 52))) * 2 powi (e - 52)"
    using False e0 by (simp add: fl_def Let_def b max_def)
  also have "\<dots> = of_int m * 2 powi (e - 52)"
    by (simp add: m round_half_even_of_int)
  also have "\<dots> = of_int n"
    using m by (simp add: field_simps)
  finally show ?thesis .
qed

subsection \<open>\<^verbatim>\<open>parseInt\<close> and \<^verbatim>\<open>toString\<close> on integers\<close>


lemma fl_millionth: "fl (1 / 10 ^ 6) \<le> 1"
proof -
  have "binade (1 / 10 ^ 6) < int 1" by (rule binade_less) simp_all
  then have "binade (1 / 10 ^ 6) \<le> 0" by simp
  from fl_grid_ge [OF _ this, of "2 ^ 52"] show ?thesis
    by (simp add: power_int_minus_divide)
qed

lemma parseInt_Number_of_int:
  assumes "\<bar>n\<bar> < 10 ^ 21"
  shows "parseInt_Number (of_int n) = n"
proof (cases "n = 0")
  case True
  then show ?thesis by (simp add: parseInt_Number_def)
next
  case False
  then have "1 \<le> \<bar>n\<bar>" by simp
  then have "(1::rat) \<le> \<bar>of_int n\<bar>" by simp
  with fl_millionth have lo: "fl (1 / 10 ^ 6) \<le> \<bar>of_int n :: rat\<bar>" by simp
  from assms have "(of_int \<bar>n\<bar> :: rat) < of_int (10 ^ 21)" by (simp only: of_int_less_iff)
  then have hi: "\<bar>of_int n :: rat\<bar> < 10 ^ 21" by simp
  from lo hi False show ?thesis by (simp add: parseInt_Number_def)
qed



lemma parseInt_Number_numeral:
  "(numeral k :: int) < 10 ^ 21 \<Longrightarrow> parseInt_Number (numeral k) = numeral k"
  using parseInt_Number_of_int [of "numeral k"] by simp

lemma Number_toString_safe: "\<bar>n\<bar> \<le> 2 ^ 53 \<Longrightarrow> Number_toString env n = decimal n"
  by (simp add: Number_toString_def)

lemma generateResetCode_quarter:
  assumes "Math_random io = 1 / 4"
  shows "generateResetCode env io = ''325000''"
proof -
  have "fl 225000 = 225000" "fl 325000 = 325000"
    using fl_of_int_safe [of 225000] fl_of_int_safe [of 325000] by simp_all
  then show ?thesis
    by (simp add: generateResetCode_def assms Number_toString_def decimal_def digits.simps
        char_of_digit)
qed

subsection \<open>The instance meets what the theorems ask of the libraries\<close>

lemma takeWhile_replicate_append:
  "y \<noteq> x \<Longrightarrow> takeWhile (\<lambda>c. c = x) (replicate n x @ y # ys) = replicate n x"
  by (induction n) simp_all

lemma demo_bcrypt:
  "\<forall>data rounds salt. bcrypt_compare demo_env data (bcrypt_hash demo_env data rounds salt)"
  by (simp add: demo_env_def)

lemma demo_jwt:
  "\<forall>payload now. \<exists>tok.
      jwt_sign demo_env payload (JWT_SECRET demo_env) 86400 now = Some tok \<and>
      (\<forall>t. now \<le> t \<and> t div 1000 < now div 1000 + 86400 \<longrightarrow>
         (\<exists>c. jwt_verify demo_env tok (JWT_SECRET demo_env) t = Some c \<and>
              payload_id c = payload_id payload \<and> payload_email c = payload_email payload))"
  by (simp add: demo_env_def Let_def takeWhile_replicate_append)

subsection \<open>Register, then login\<close>

text \<open>
  \<^bold>\<open>C1.\<close> For every name, email and password that are non-empty, with the email not yet
  registered, \<^verbatim>\<open>/auth/register\<close> answers 201 with exactly \<^verbatim>\<open>{ id, name, email }\<close> of
  the new user, and a login that follows with the same email and password answers 200
  with a token whose verification, at any time of the token's one day, yields the \<^verbatim>\<open>id\<close>
  that the registration assigned.

  The store answers the three queries. Of the libraries the theorem asks that
  \<^verbatim>\<open>bcrypt.compare\<close> accepts what \<^verbatim>\<open>bcrypt.hash\<close> made, and that \<^verbatim>\<open>jwt.sign\<close> with the
  configured secret returns a token that \<^verbatim>\<open>jwt.verify\<close> decodes to the signed \<^verbatim>\<open>id\<close> and
  \<^verbatim>\<open>email\<close> while the clock, in seconds, is before the expiry.
\<close>

theorem register_then_login:
  fixes env :: "'f env" and s :: "'f state"
  assumes fields: "name b = Some n" "email b = Some e" "password b = Str p"
      "n \<noteq> []" "e \<noteq> []" "p \<noteq> []"
    and fresh: "select_users e s = []"
    and store: "\<not> query_rejects io 0" "\<not> query_rejects io 1" "\<not> query_rejects io' 0"
    and same: "email b' = Some e" "password b' = Str p"
    and bcrypt: "\<forall>data rounds salt. bcrypt_compare env data (bcrypt_hash env data rounds salt)"
    and jwt: "\<forall>payload now. \<exists>tok.
        jwt_sign env payload (JWT_SECRET env) 86400 now = Some tok \<and>
        (\<forall>t. now \<le> t \<and> t div 1000 < now div 1000 + 86400 \<longrightarrow>
           (\<exists>c. jwt_verify env tok (JWT_SECRET env) t = Some c \<and>
                payload_id c = payload_id payload \<and> payload_email c = payload_email payload))"
  shows "\<exists>uid s1 tok.
      register env io b s =
        (\<lparr>status = 201,
          json = JObj [(''msg'', JStr ''Conta criada com sucesso.''),
                       (''user'', JObj [(''id'', JInt (int uid)), (''name'', JStr n),
                                        (''email'', JStr e)])]\<rparr>, s1)
    \<and> login env io' b' s1 =
        (\<lparr>status = 200,
          json = JObj [(''token'', JStr tok),
                       (''user'', JObj [(''id'', JInt (int uid)), (''name'', JStr n),
                                        (''email'', JStr e)])]\<rparr>, s1)
    \<and> (\<forall>t. Date_now io' \<le> t \<and> t div 1000 < Date_now io' div 1000 + 86400 \<longrightarrow>
          (\<exists>c. jwt_verify env tok (JWT_SECRET env) t = Some c \<and> payload_id c = uid))"
proof -
  define row where "row = \<lparr>u_id = users_id_seq s, u_name = n, u_email = e,
      u_password_hash = bcrypt_hash env p 10 (bcrypt_salt io),
      u_reset_token = None, u_reset_expires = None\<rparr>"
  define s1 where "s1 = s\<lparr>users := users s @ [row], users_id_seq := Suc (users_id_seq s)\<rparr>"
  have reg: "register env io b s =
        (\<lparr>status = 201,
          json = JObj [(''msg'', JStr ''Conta criada com sucesso.''),
                       (''user'', JObj [(''id'', JInt (int (users_id_seq s))), (''name'', JStr n),
                                        (''email'', JStr e)])]\<rparr>, s1)"
    using fields fresh store(1,2)
    by (simp add: register_def falsy_def insert_user_def Let_def public_user_def row_def s1_def)
  have sel: "select_users e s1 = [row]"
    using fresh by (simp add: select_users_def s1_def row_def)
  from jwt obtain tok where
    sign: "jwt_sign env \<lparr>payload_id = users_id_seq s, payload_email = e\<rparr> (JWT_SECRET env) 86400
             (Date_now io') = Some tok"
    and ver: "\<forall>t. Date_now io' \<le> t \<and> t div 1000 < Date_now io' div 1000 + 86400 \<longrightarrow>
           (\<exists>c. jwt_verify env tok (JWT_SECRET env) t = Some c \<and>
                payload_id c = users_id_seq s)"
    by (metis jwt_payload.select_convs(1))
  have log: "login env io' b' s1 =
        (\<lparr>status = 200,
          json = JObj [(''token'', JStr tok),
                       (''user'', JObj [(''id'', JInt (int (users_id_seq s))), (''name'', JStr n),
                                        (''email'', JStr e)])]\<rparr>, s1)"
    using same fields(5,6) store(3) bcrypt sign
    by (simp add: login_def falsy_def sel generateToken_def public_user_def row_def)
  show ?thesis using reg log ver by blast
qed

text \<open>
  The example of the specification: Ana registers on the empty store and logs in; the
  token verifies to her \<^verbatim>\<open>id\<close> 1.
\<close>

theorem register_then_login_example:
  "\<exists>tok.
     register demo_env demo_io
       (no_body\<lparr>name := Some ''Ana'', email := Some ''ana@x.com'', password := Str ''secret1''\<rparr>)
       empty_state =
       (\<lparr>status = 201,
         json = JObj [(''msg'', JStr ''Conta criada com sucesso.''),
                      (''user'', JObj [(''id'', JInt 1), (''name'', JStr ''Ana''),
                                       (''email'', JStr ''ana@x.com'')])]\<rparr>,
        empty_state\<lparr>users := [ana\<lparr>u_reset_token := None, u_reset_expires := None\<rparr>],
                     users_id_seq := 2\<rparr>)
     \<and> fst (login demo_env demo_io
         (no_body\<lparr>email := Some ''ana@x.com'', password := Str ''secret1''\<rparr>)
         (empty_state\<lparr>users := [ana\<lparr>u_reset_token := None, u_reset_expires := None\<rparr>],
                      users_id_seq := 2\<rparr>)) =
       \<lparr>status = 200,
        json = JObj [(''token'', JStr tok),
                     (''user'', JObj [(''id'', JInt 1), (''name'', JStr ''Ana''),
                                      (''email'', JStr ''ana@x.com'')])]\<rparr>
     \<and> map_option payload_id
         (jwt_verify demo_env tok (JWT_SECRET demo_env) (Date_now demo_io)) = Some 1"
proof -
  let ?b = "no_body\<lparr>name := Some ''Ana'', email := Some ''ana@x.com'',
                    password := Str ''secret1''\<rparr>"
  let ?b' = "no_body\<lparr>email := Some ''ana@x.com'', password := Str ''secret1''\<rparr>"
  have fields: "name ?b = Some ''Ana''" "email ?b = Some ''ana@x.com''"
      "password ?b = Str ''secret1''" "''Ana'' \<noteq> []" "''ana@x.com'' \<noteq> []" "''secret1'' \<noteq> []"
    by (simp_all add: no_body_def)
  have fresh: "select_users ''ana@x.com'' empty_state = []"
    by (simp add: select_users_def empty_state_def)
  have store: "\<not> query_rejects demo_io 0" "\<not> query_rejects demo_io 1"
    by (simp_all add: demo_io_def)
  have same: "email ?b' = Some ''ana@x.com''" "password ?b' = Str ''secret1''"
    by (simp_all add: no_body_def)
  from register_then_login [OF fields fresh store store(1) same demo_bcrypt demo_jwt]
  obtain uid s1 tok where
    r: "register demo_env demo_io ?b empty_state =
        (\<lparr>status = 201,
          json = JObj [(''msg'', JStr ''Conta criada com sucesso.''),
                       (''user'', JObj [(''id'', JInt (int uid)), (''name'', JStr ''Ana''),
                                        (''email'', JStr ''ana@x.com'')])]\<rparr>, s1)"
    and l: "login demo_env demo_io ?b' s1 =
        (\<lparr>status = 200,
          json = JObj [(''token'', JStr tok),
                       (''user'', JObj [(''id'', JInt (int uid)), (''name'', JStr ''Ana''),
                                        (''email'', JStr ''ana@x.com'')])]\<rparr>, s1)"
    and v: "\<forall>t. Date_now demo_io \<le> t \<and> t div 1000 < Date_now demo_io div 1000 + 86400 \<longrightarrow>
          (\<exists>c. jwt_verify demo_env tok (JWT_SECRET demo_env) t = Some c \<and> payload_id c = uid)"
    by blast
  have r': "register demo_env demo_io ?b empty_state =
       (\<lparr>status = 201,
         json = JObj [(''msg'', JStr ''Conta criada com sucesso.''),
                      (''user'', JObj [(''id'', JInt 1), (''name'', JStr ''Ana''),
                                       (''email'', JStr ''ana@x.com'')])]\<rparr>,
        empty_state\<lparr>users := [ana\<lparr>u_reset_token := None, u_reset_expires := None\<rparr>],
                     users_id_seq := 2\<rparr>)"
    by (simp add: register_def falsy_def no_body_def demo_io_def select_users_def empty_state_def
        demo_env_def insert_user_def public_user_def ana_def Let_def)
  from r r' have uid: "uid = 1"
    and s1: "s1 = empty_state\<lparr>users := [ana\<lparr>u_reset_token := None, u_reset_expires := None\<rparr>],
                     users_id_seq := 2\<rparr>"
    by simp_all
  from v have "\<exists>c. jwt_verify demo_env tok (JWT_SECRET demo_env) (Date_now demo_io) = Some c \<and>
      payload_id c = uid"
    by simp
  then have "map_option payload_id
      (jwt_verify demo_env tok (JWT_SECRET demo_env) (Date_now demo_io)) = Some 1"
    using uid by auto
  with r' l show ?thesis unfolding uid s1 by auto
qed

subsection \<open>The preconditions of a password reset\<close>

lemma reset_password_incomplete:
  "falsy (email b) \<or> falsy (token b) \<or> falsy (newPassword b) \<Longrightarrow>
   reset_password env io b s = (msg 400 ''Dados incompletos.'', s)"
  by (simp add: reset_password_def)

lemma reset_password_complete:
  assumes "email b = Some e" "token b = Some t" "newPassword b = Some np"
    and "e \<noteq> []" "t \<noteq> []" "np \<noteq> []"
  shows "reset_password env io b s =
     (if length np < 6 then (msg 400 ''Senha curta demais.'', s)
      else if query_rejects io 0 then (msg 500 ''Erro no servidor.'', s)
      else (case select_users e s of
              [] \<Rightarrow> (msg 400 (''Usu'' @ [CHR 0xE1] @ ''rio n'' @ [CHR 0xE3] @ ''o encontrado.''), s)
            | user # _ \<Rightarrow>
                if Some t \<noteq> u_reset_token user
                then (msg 400 (''C'' @ [CHR 0xF3] @ ''digo inv'' @ [CHR 0xE1] @ ''lido.''), s)
                else if Date_now io > new_Date (u_reset_expires user)
                then (msg 400 (''C'' @ [CHR 0xF3] @ ''digo expirado.''), s)
                else if query_rejects io 1 then (msg 500 ''Erro no servidor.'', s)
                else (msg 200 ''Senha alterada com sucesso.'',
                      update_password (bcrypt_hash env np 10 (bcrypt_salt io)) (u_id user) s)))"
  using assms by (simp add: reset_password_def falsy_def Let_def split: list.splits)

text \<open>
  \<^bold>\<open>C2.\<close> \<^verbatim>\<open>/auth/reset-password\<close> checks in this order, and answers with the error of
  the first check that fails, whatever the later ones would say:
  \<^enum> the shape: \<^verbatim>\<open>email\<close>, \<^verbatim>\<open>token\<close> (the code) and \<^verbatim>\<open>newPassword\<close> are present
    (``Dados incompletos.''), and \<^verbatim>\<open>newPassword\<close> has six characters or more
    (``Senha curta demais.''); both before the store is asked at all;
  \<^enum> the user exists (the message of \<^verbatim>\<open>UserNotFound\<close>);
  \<^enum> the code equals the stored \<^verbatim>\<open>reset_token\<close> (the message of \<^verbatim>\<open>CodeMismatch\<close>); when
    none is pending, the stored value is \<^verbatim>\<open>NULL\<close> and every submitted code fails here;
  \<^enum> the clock is not past \<^verbatim>\<open>reset_expires\<close> (the message of \<^verbatim>\<open>CodeExpired\<close>);
  \<^enum> only then the update, which sets the new hash and clears both reset fields.
  From the second step on the store is taken to answer.
\<close>

theorem reset_password_precondition_order:
  fixes env :: "'f env" and s :: "'f state"
  shows
  "(falsy (email b) \<or> falsy (token b) \<or> falsy (newPassword b) \<longrightarrow>
      reset_password env io b s = (msg 400 ''Dados incompletos.'', s))
   \<and> (email b = Some e \<and> token b = Some t \<and> newPassword b = Some np \<and>
       e \<noteq> [] \<and> t \<noteq> [] \<and> np \<noteq> [] \<longrightarrow>
       (length np < 6 \<longrightarrow>
          reset_password env io b s = (msg 400 ''Senha curta demais.'', s))
     \<and> (6 \<le> length np \<and> \<not> query_rejects io 0 \<longrightarrow>
          (select_users e s = [] \<longrightarrow>
             reset_password env io b s =
               (msg 400 (''Usu'' @ [CHR 0xE1] @ ''rio n'' @ [CHR 0xE3] @ ''o encontrado.''), s))
        \<and> (\<forall>user rest. select_users e s = user # rest \<longrightarrow>
             (u_reset_token user \<noteq> Some t \<longrightarrow>
                reset_password env io b s =
                  (msg 400 (''C'' @ [CHR 0xF3] @ ''digo inv'' @ [CHR 0xE1] @ ''lido.''), s))
           \<and> (u_reset_token user = None \<longrightarrow>
                reset_password env io b s =
                  (msg 400 (''C'' @ [CHR 0xF3] @ ''digo inv'' @ [CHR 0xE1] @ ''lido.''), s))
           \<and> (u_reset_token user = Some t \<and> Date_now io > new_Date (u_reset_expires user) \<longrightarrow>
                reset_password env io b s =
                  (msg 400 (''C'' @ [CHR 0xF3] @ ''digo expirado.''), s))
           \<and> (u_reset_token user = Some t \<and> Date_now io \<le> new_Date (u_reset_expires user) \<and>
               \<not> query_rejects io 1 \<longrightarrow>
                reset_password env io b s =
                  (msg 200 ''Senha alterada com sucesso.'',
                   update_password (bcrypt_hash env np 10 (bcrypt_salt io)) (u_id user) s)))))"
proof -
  have 1: "falsy (email b) \<or> falsy (token b) \<or> falsy (newPassword b) \<longrightarrow>
      reset_password env io b s = (msg 400 ''Dados incompletos.'', s)"
    using reset_password_incomplete by blast
  have 2: ?thesis
    if "email b = Some e" "token b = Some t" "newPassword b = Some np"
      "e \<noteq> []" "t \<noteq> []" "np \<noteq> []"
    using 1 that reset_password_complete [OF that, of env io s]
    by (auto simp add: falsy_def)
  show ?thesis using 1 2 by blast
qed

text \<open>
  One request for each step, on a store where Ana has the code 325000 pending until
  1700000900000: no password, a short one, an unknown email, a wrong code (after the
  expiry: the comparison comes first), the right code after the expiry, the right code in
  time, and the right code once more after the reset has cleared it.
\<close>

theorem reset_password_precondition_order_example:
  "reset_password demo_env demo_io
      (no_body\<lparr>email := Some ''nobody@x.com'', token := Some ''000000''\<rparr>) demo_state =
     (msg 400 ''Dados incompletos.'', demo_state)
   \<and> reset_password demo_env demo_io
      (no_body\<lparr>email := Some ''nobody@x.com'', token := Some ''000000'',
                newPassword := Some ''abc''\<rparr>) demo_state =
     (msg 400 ''Senha curta demais.'', demo_state)
   \<and> reset_password demo_env demo_io
      (no_body\<lparr>email := Some ''nobody@x.com'', token := Some ''000000'',
                newPassword := Some ''secret2''\<rparr>) demo_state =
     (msg 400 (''Usu'' @ [CHR 0xE1] @ ''rio n'' @ [CHR 0xE3] @ ''o encontrado.''), demo_state)
   \<and> reset_password demo_env (demo_io\<lparr>Date_now := 1700000900001\<rparr>)
      (no_body\<lparr>email := Some ''ana@x.com'', token := Some ''000000'',
                newPassword := Some ''secret2''\<rparr>) demo_state =
     (msg 400 (''C'' @ [CHR 0xF3] @ ''digo inv'' @ [CHR 0xE1] @ ''lido.''), demo_state)
   \<and> reset_password demo_env (demo_io\<lparr>Date_now := 1700000900001\<rparr>)
      (no_body\<lparr>email := Some ''ana@x.com'', token := Some ''325000'',
                newPassword := Some ''secret2''\<rparr>) demo_state =
     (msg 400 (''C'' @ [CHR 0xF3] @ ''digo expirado.''), demo_state)
   \<and> reset_password demo_env demo_io
      (no_body\<lparr>email := Some ''ana@x.com'', token := Some ''325000'',
                newPassword := Some ''secret2''\<rparr>) demo_state =
     (msg 200 ''Senha alterada com sucesso.'',
      demo_state\<lparr>users := [ana\<lparr>u_password_hash := ''NaClsecret2'', u_reset_token := None,
                                u_reset_expires := None\<rparr>]\<rparr>)
   \<and> reset_password demo_env demo_io
      (no_body\<lparr>email := Some ''ana@x.com'', token := Some ''325000'',
                newPassword := Some ''secret2''\<rparr>)
      (demo_state\<lparr>users := [ana\<lparr>u_reset_token := None, u_reset_expires := None\<rparr>]\<rparr>) =
     (msg 400 (''C'' @ [CHR 0xF3] @ ''digo inv'' @ [CHR 0xE1] @ ''lido.''),
      demo_state\<lparr>users := [ana\<lparr>u_reset_token := None, u_reset_expires := None\<rparr>]\<rparr>)"
  using
    reset_password_precondition_order
      [of "no_body\<lparr>email := Some ''nobody@x.com'', token := Some ''000000''\<rparr>"
          demo_env demo_io demo_state]
    reset_password_precondition_order
      [of "no_body\<lparr>email := Some ''nobody@x.com'', token := Some ''000000'',
                    newPassword := Some ''abc''\<rparr>"
          demo_env demo_io demo_state "''nobody@x.com''" "''000000''" "''abc''"]
    reset_password_precondition_order
      [of "no_body\<lparr>email := Some ''nobody@x.com'', token := Some ''000000'',
                    newPassword := Some ''secret2''\<rparr>"
          demo_env demo_io demo_state "''nobody@x.com''" "''000000''" "''secret2''"]
    reset_password_precondition_order
      [of "no_body\<lparr>email := Some ''ana@x.com'', token := Some ''000000'',
                    newPassword := Some ''secret2''\<rparr>"
          demo_env "demo_io\<lparr>Date_now := 1700000900001\<rparr>" demo_state
          "''ana@x.com''" "''000000''" "''secret2''"]
    reset_password_precondition_order
      [of "no_body\<lparr>email := Some ''ana@x.com'', token := Some ''325000'',
                    newPassword := Some ''secret2''\<rparr>"
          demo_env "demo_io\<lparr>Date_now := 1700000900001\<rparr>" demo_state
          "''ana@x.com''" "''325000''" "''secret2''"]
    reset_password_precondition_order
      [of "no_body\<lparr>email := Some ''ana@x.com'', token := Some ''325000'',
                    newPassword := Some ''secret2''\<rparr>"
          demo_env demo_io demo_state "''ana@x.com''" "''325000''" "''secret2''"]
    reset_password_precondition_order
      [of "no_body\<lparr>email := Some ''ana@x.com'', token := Some ''325000'',
                    newPassword := Some ''secret2''\<rparr>"
          demo_env demo_io
          "demo_state\<lparr>users := [ana\<lparr>u_reset_token := None, u_reset_expires := None\<rparr>]\<rparr>"
          "''ana@x.com''" "''325000''" "''secret2''"]
  by (simp add: no_body_def falsy_def demo_io_def demo_state_def select_users_def ana_def
      new_Date_def update_password_def demo_env_def)

subsection \<open>The two failures of a login\<close>

text \<open>
  While the password is a string, the two failures of a login get the same response:
  two logins that both carry a non-empty email and a non-empty password, one with an
  email that is not registered and one with a registered email and a password that
  \<^verbatim>\<open>bcrypt.compare\<close> refuses, are answered 400 ``Credenciais incorretas.'', whatever
  else differs between them (lines 103 and 107 of the source).
\<close>

lemma login_failures_string_password:
  fixes env :: "'f env" and s1 s2 :: "'f state"
  assumes "email b1 = Some e1" "password b1 = Str p1" "e1 \<noteq> []" "p1 \<noteq> []"
    and "email b2 = Some e2" "password b2 = Str p2" "e2 \<noteq> []" "p2 \<noteq> []"
    and "\<not> query_rejects io1 0" "\<not> query_rejects io2 0"
    and "select_users e1 s1 = []"
    and "select_users e2 s2 = user # rest" "\<not> bcrypt_compare env p2 (u_password_hash user)"
  shows "fst (login env io1 b1 s1) = fst (login env io2 b2 s2)
     \<and> login env io1 b1 s1 = (msg 400 ''Credenciais incorretas.'', s1)
     \<and> login env io2 b2 s2 = (msg 400 ''Credenciais incorretas.'', s2)"
  using assms by (simp add: login_def falsy_def)

text \<open>
  A password that is truthy and not a string is no match for any registered user, and it
  is answered by the \<^verbatim>\<open>catch\<close> when the email is registered: the lookup at line 102
  comes first and answers 400 for an email that is not registered, and only for a
  registered one does the handler reach \<^verbatim>\<open>bcrypt.compare\<close> at line 106, which rejects.
\<close>

lemma login_password_not_string:
  fixes env :: "'f env" and s :: "'f state"
  assumes "email b = Some e" "e \<noteq> []" "ToBoolean (password b)" "\<forall>p. password b \<noteq> Str p"
    and "\<not> query_rejects io 0"
  shows "login env io b s =
     (case select_users e s of
        [] \<Rightarrow> (msg 400 ''Credenciais incorretas.'', s)
      | user # rest \<Rightarrow> (msg 500 ''Erro no servidor.'', s))"
  using assms by (simp add: login_def falsy_def split: list.splits jsval.splits)

text \<open>
  \<^bold>\<open>C3.\<close> The two failures of a login are not answered alike for every request. On a
  store where Ana is registered and nobody else, two logins with the password \<^verbatim>\<open>123\<close>
  (the number; a wrong password for every user) are answered
  \<^item> 400 ``Credenciais incorretas.'' for the email \<^verbatim>\<open>nobody@x.com\<close>, which is not
    registered, and
  \<^item> 500 ``Erro no servidor.'' for the email \<^verbatim>\<open>ana@x.com\<close>, which is;
  so the status and the message tell the caller which emails are registered. The same
  two emails with the wrong password \<^verbatim>\<open>"123"\<close>, a string, are both answered 400
  ``Credenciais incorretas.''.
\<close>

theorem login_failures_distinguishable:
  "select_users ''nobody@x.com'' demo_state = []
   \<and> select_users ''ana@x.com'' demo_state = [ana]
   \<and> login demo_env demo_io
        (no_body\<lparr>email := Some ''nobody@x.com'', password := Num 123\<rparr>) demo_state =
      (\<lparr>status = 400, json = JObj [(''msg'', JStr ''Credenciais incorretas.'')]\<rparr>, demo_state)
   \<and> login demo_env demo_io
        (no_body\<lparr>email := Some ''ana@x.com'', password := Num 123\<rparr>) demo_state =
      (\<lparr>status = 500, json = JObj [(''msg'', JStr ''Erro no servidor.'')]\<rparr>, demo_state)
   \<and> login demo_env demo_io
        (no_body\<lparr>email := Some ''nobody@x.com'', password := Str ''123''\<rparr>) demo_state =
      (\<lparr>status = 400, json = JObj [(''msg'', JStr ''Credenciais incorretas.'')]\<rparr>, demo_state)
   \<and> login demo_env demo_io
        (no_body\<lparr>email := Some ''ana@x.com'', password := Str ''123''\<rparr>) demo_state =
      (\<lparr>status = 400, json = JObj [(''msg'', JStr ''Credenciais incorretas.'')]\<rparr>, demo_state)"
  by (simp add: login_def falsy_def no_body_def demo_io_def demo_state_def select_users_def
      ana_def demo_env_def msg_def)

subsection \<open>A reset that fails changes nothing\<close>

text \<open>
  \<^bold>\<open>C4.\<close> Every \<^verbatim>\<open>/auth/reset-password\<close> that does not answer 200 leaves the state as it
  was, whatever made it fail. For a request that reaches the lookup (lines 157 to 170 of
  the source: all three fields present, \<^verbatim>\<open>newPassword\<close> of six characters or more) and
  names an existing user:
  \<^item> with the stored code, after the expiry, the answer is the message of \<^verbatim>\<open>CodeExpired\<close>
    and the state (so the password hash) is unchanged;
  \<^item> with another code the answer is the message of \<^verbatim>\<open>CodeMismatch\<close> and the state (so
    the stored code and its expiry) is unchanged; and any number of such attempts, at any
    clock and whether or not the store answers, leaves the state unchanged.
  The store answers the lookup where an answer is named.
\<close>

theorem reset_password_failure_unchanged:
  fixes env :: "'f env" and s :: "'f state"
  shows
  "(status (fst (reset_password env io b s)) \<noteq> 200 \<longrightarrow> snd (reset_password env io b s) = s)
   \<and> (email b = Some e \<and> token b = Some t \<and> newPassword b = Some np \<and>
       e \<noteq> [] \<and> t \<noteq> [] \<and> 6 \<le> length np \<and> select_users e s = user # rest \<longrightarrow>
       (u_reset_token user = Some t \<and> Date_now io > new_Date (u_reset_expires user) \<and>
        \<not> query_rejects io 0 \<longrightarrow>
          reset_password env io b s = (msg 400 (''C'' @ [CHR 0xF3] @ ''digo expirado.''), s))
     \<and> (u_reset_token user \<noteq> Some t \<longrightarrow>
          (\<not> query_rejects io 0 \<longrightarrow>
             reset_password env io b s =
               (msg 400 (''C'' @ [CHR 0xF3] @ ''digo inv'' @ [CHR 0xE1] @ ''lido.''), s))
        \<and> (\<forall>ios. foldl (\<lambda>s' io'. snd (reset_password env io' b s')) s ios = s)))"
proof -
  have 1: "status (fst (reset_password env io b s)) \<noteq> 200 \<longrightarrow>
      snd (reset_password env io b s) = s"
    by (simp add: reset_password_def falsy_def msg_def Let_def
        split: option.splits list.splits prod.splits)
  have 2: ?thesis
    if h: "email b = Some e" "token b = Some t" "newPassword b = Some np" "e \<noteq> []" "t \<noteq> []"
      "6 \<le> length np" "select_users e s = user # rest"
  proof -
    from h have np: "np \<noteq> []" by auto
    note c = reset_password_complete [OF h(1-3) h(4,5) np, of env]
    have w: "snd (reset_password env io' b s) = s" if "u_reset_token user \<noteq> Some t" for io'
      using that h by (auto simp add: c)
    have it: "foldl (\<lambda>s' io'. snd (reset_password env io' b s')) s ios = s"
      if "u_reset_token user \<noteq> Some t" for ios
      by (induction ios) (simp_all add: w [OF that])
    show ?thesis using 1 h it by (auto simp add: c)
  qed
  show ?thesis using 1 2 by blast
qed

text \<open>
  On Ana's pending code 325000: the right code one millisecond late, a wrong code, and
  three wrong attempts in a row, the second while the store is down.
\<close>

theorem reset_password_failure_unchanged_example:
  "reset_password demo_env (demo_io\<lparr>Date_now := 1700000900001\<rparr>)
      (no_body\<lparr>email := Some ''ana@x.com'', token := Some ''325000'',
                newPassword := Some ''secret2''\<rparr>) demo_state =
     (msg 400 (''C'' @ [CHR 0xF3] @ ''digo expirado.''), demo_state)
   \<and> reset_password demo_env demo_io
      (no_body\<lparr>email := Some ''ana@x.com'', token := Some ''000000'',
                newPassword := Some ''secret2''\<rparr>) demo_state =
     (msg 400 (''C'' @ [CHR 0xF3] @ ''digo inv'' @ [CHR 0xE1] @ ''lido.''), demo_state)
   \<and> foldl (\<lambda>s' io'. snd (reset_password demo_env io'
               (no_body\<lparr>email := Some ''ana@x.com'', token := Some ''000000'',
                         newPassword := Some ''secret2''\<rparr>) s'))
        demo_state
        [demo_io, demo_io\<lparr>query_rejects := (\<lambda>k. True)\<rparr>, demo_io\<lparr>Date_now := 1700000900001\<rparr>] =
      demo_state
   \<and> u_reset_token (hd (users demo_state)) = Some ''325000''"
proof -
  let ?late = "demo_io\<lparr>Date_now := 1700000900001\<rparr>"
  let ?right = "no_body\<lparr>email := Some ''ana@x.com'', token := Some ''325000'',
                        newPassword := Some ''secret2''\<rparr>"
  let ?wrong = "no_body\<lparr>email := Some ''ana@x.com'', token := Some ''000000'',
                        newPassword := Some ''secret2''\<rparr>"
  have sel: "select_users ''ana@x.com'' demo_state = ana # []"
    by (simp add: select_users_def demo_state_def ana_def)
  have stored: "u_reset_token ana = Some ''325000''" "u_reset_token ana \<noteq> Some ''000000''"
    by (simp_all add: ana_def)
  have late: "Date_now ?late > new_Date (u_reset_expires ana)"
    by (simp add: ana_def new_Date_def)
  have q: "\<not> query_rejects ?late 0" "\<not> query_rejects demo_io 0"
    by (simp_all add: demo_io_def)
  have expired: "reset_password demo_env ?late ?right demo_state =
      (msg 400 (''C'' @ [CHR 0xF3] @ ''digo expirado.''), demo_state)"
    using reset_password_failure_unchanged
      [of demo_env ?late ?right demo_state "''ana@x.com''" "''325000''" "''secret2''" ana "[]"]
      sel stored(1) late q(1)
    by simp
  have mismatch: "reset_password demo_env demo_io ?wrong demo_state =
      (msg 400 (''C'' @ [CHR 0xF3] @ ''digo inv'' @ [CHR 0xE1] @ ''lido.''), demo_state)"
    and again: "\<forall>ios. foldl (\<lambda>s' io'. snd (reset_password demo_env io' ?wrong s')) demo_state ios =
      demo_state"
    using reset_password_failure_unchanged
      [of demo_env demo_io ?wrong demo_state "''ana@x.com''" "''000000''" "''secret2''" ana "[]"]
      sel stored(2) q(2)
    by simp_all
  have code: "u_reset_token (hd (users demo_state)) = Some ''325000''"
    by (simp add: demo_state_def ana_def)
  from again have three:
    "foldl (\<lambda>s' io'. snd (reset_password demo_env io' ?wrong s')) demo_state
       [demo_io, demo_io\<lparr>query_rejects := (\<lambda>k. True)\<rparr>, ?late] = demo_state"
    by (rule spec)
  from expired mismatch three code show ?thesis
    by (intro conjI)
qed

subsection \<open>Forgotten passwords\<close>

lemma select_users_update_reset:
  "select_users e (update_reset code expires i s) =
     map (\<lambda>u. if u_id u = i
               then u\<lparr>u_reset_token := Some code, u_reset_expires := Some expires\<rparr>
               else u)
       (select_users e s)"
  by (simp add: select_users_def update_reset_def filter_map comp_def if_distrib [of u_email]
      cong: if_cong)

lemma forgot_password_found:
  assumes "email b = Some e" "e \<noteq> []" "\<not> query_rejects io 0" "select_users e s = user # rest"
  shows "forgot_password env io b s =
     (if query_rejects io 1 then (msg 500 ''Erro ao enviar email.'', s)
      else (if sendMail_rejects io then msg 500 ''Erro ao enviar email.''
            else msg 200 (''C'' @ [CHR 0xF3] @ ''digo enviado para o email.''),
            (update_reset (generateResetCode env io) (Date_now io + 900000) (u_id user) s)
              \<lparr>sendMail_calls :=
                 sendMail_calls s @ [reset_mail env e (u_name user) (generateResetCode env io)]\<rparr>))"
  using assms by (simp add: forgot_password_def Let_def update_reset_def)

lemma forgot_password_calls:
  "sendMail_calls (snd (forgot_password env io b s)) \<noteq> sendMail_calls s \<Longrightarrow>
   \<exists>e user rest. email b = Some e \<and> e \<noteq> [] \<and> \<not> query_rejects io 0 \<and> \<not> query_rejects io 1 \<and>
      select_users e s = user # rest"
  by (auto simp add: forgot_password_def Let_def split: option.splits list.splits if_splits)

lemma select_users_forgot_password:
  "select_users e
     ((update_reset code expires i s)\<lparr>sendMail_calls := calls\<rparr>) =
   map (\<lambda>u. if u_id u = i
             then u\<lparr>u_reset_token := Some code, u_reset_expires := Some expires\<rparr>
             else u)
     (select_users e s)"
  using select_users_update_reset [of e code expires i s]
  by (simp add: select_users_def)

text \<open>
  \<^bold>\<open>C5.\<close> In \<^verbatim>\<open>/auth/forgot-password\<close> the code is stored before the mail is handed to
  the transport:
  \<^item> whenever the request calls \<^verbatim>\<open>sendMail\<close> at all, the \<^verbatim>\<open>UPDATE\<close> has gone through, and
    the state is the one with the code and its expiry written to the user's row and that
    one mail, carrying the same code, recorded;
  \<^item> when the \<^verbatim>\<open>UPDATE\<close> rejects, no mail is attempted and nothing changes;
  \<^item> when the \<^verbatim>\<open>UPDATE\<close> goes through and \<^verbatim>\<open>sendMail\<close> rejects, the answer is 500
    ``Erro ao enviar email.'' and the row found by the email keeps the code and the
    expiry.
\<close>

theorem forgot_password_persists_before_mail:
  fixes env :: "'f env" and s :: "'f state"
  shows
  "(sendMail_calls (snd (forgot_password env io b s)) \<noteq> sendMail_calls s \<longrightarrow>
      \<not> query_rejects io 1 \<and>
      (\<exists>e user rest. email b = Some e \<and> select_users e s = user # rest \<and>
         snd (forgot_password env io b s) =
           (update_reset (generateResetCode env io) (Date_now io + 15 * 60 * 1000) (u_id user) s)
             \<lparr>sendMail_calls :=
                sendMail_calls s @ [reset_mail env e (u_name user) (generateResetCode env io)]\<rparr>))
   \<and> (email b = Some e \<and> e \<noteq> [] \<and> \<not> query_rejects io 0 \<and> select_users e s = user # rest \<longrightarrow>
        (query_rejects io 1 \<longrightarrow>
           forgot_password env io b s = (msg 500 ''Erro ao enviar email.'', s))
      \<and> (\<not> query_rejects io 1 \<and> sendMail_rejects io \<longrightarrow>
           fst (forgot_password env io b s) = msg 500 ''Erro ao enviar email.''
         \<and> select_users e (snd (forgot_password env io b s)) =
             user\<lparr>u_reset_token := Some (generateResetCode env io),
                   u_reset_expires := Some (Date_now io + 15 * 60 * 1000)\<rparr>
             # map (\<lambda>u. if u_id u = u_id user
                         then u\<lparr>u_reset_token := Some (generateResetCode env io),
                                u_reset_expires := Some (Date_now io + 15 * 60 * 1000)\<rparr>
                         else u) rest))"
proof -
  have 1: "\<not> query_rejects io 1 \<and>
      (\<exists>e user rest. email b = Some e \<and> select_users e s = user # rest \<and>
         snd (forgot_password env io b s) =
           (update_reset (generateResetCode env io) (Date_now io + 15 * 60 * 1000) (u_id user) s)
             \<lparr>sendMail_calls :=
                sendMail_calls s @ [reset_mail env e (u_name user) (generateResetCode env io)]\<rparr>)"
    if "sendMail_calls (snd (forgot_password env io b s)) \<noteq> sendMail_calls s"
  proof -
    from forgot_password_calls [OF that] obtain e user rest where
      e: "email b = Some e" "e \<noteq> []" "\<not> query_rejects io 0" "select_users e s = user # rest"
      and q: "\<not> query_rejects io 1"
      by blast
    show ?thesis using q e(1,4) by (simp add: forgot_password_found [OF e])
  qed
  have 2: "(query_rejects io 1 \<longrightarrow>
           forgot_password env io b s = (msg 500 ''Erro ao enviar email.'', s))
      \<and> (\<not> query_rejects io 1 \<and> sendMail_rejects io \<longrightarrow>
           fst (forgot_password env io b s) = msg 500 ''Erro ao enviar email.''
         \<and> select_users e (snd (forgot_password env io b s)) =
             user\<lparr>u_reset_token := Some (generateResetCode env io),
                   u_reset_expires := Some (Date_now io + 15 * 60 * 1000)\<rparr>
             # map (\<lambda>u. if u_id u = u_id user
                         then u\<lparr>u_reset_token := Some (generateResetCode env io),
                                u_reset_expires := Some (Date_now io + 15 * 60 * 1000)\<rparr>
                         else u) rest)"
    if e: "email b = Some e" "e \<noteq> []" "\<not> query_rejects io 0" "select_users e s = user # rest"
    by (simp add: forgot_password_found [OF e] select_users_forgot_password e(4))
  show ?thesis using 1 2 by blast
qed

text \<open>
  Ana asks for a code while the mail transport is down: 500, one mail attempted, and
  her row holds the new code 325000 with its expiry. With the store down at the
  \<^verbatim>\<open>UPDATE\<close>, nothing is attempted.
\<close>

theorem forgot_password_persists_before_mail_example:
  "fst (forgot_password demo_env (demo_io\<lparr>sendMail_rejects := True\<rparr>)
          (no_body\<lparr>email := Some ''ana@x.com''\<rparr>)
          (demo_state\<lparr>users := [ana\<lparr>u_reset_token := None, u_reset_expires := None\<rparr>]\<rparr>)) =
     msg 500 ''Erro ao enviar email.''
   \<and> select_users ''ana@x.com''
       (snd (forgot_password demo_env (demo_io\<lparr>sendMail_rejects := True\<rparr>)
          (no_body\<lparr>email := Some ''ana@x.com''\<rparr>)
          (demo_state\<lparr>users := [ana\<lparr>u_reset_token := None, u_reset_expires := None\<rparr>]\<rparr>))) =
     [ana]
   \<and> length (sendMail_calls
       (snd (forgot_password demo_env (demo_io\<lparr>sendMail_rejects := True\<rparr>)
          (no_body\<lparr>email := Some ''ana@x.com''\<rparr>)
          (demo_state\<lparr>users := [ana\<lparr>u_reset_token := None, u_reset_expires := None\<rparr>]\<rparr>)))) = 1
   \<and> forgot_password demo_env (demo_io\<lparr>query_rejects := (\<lambda>k. k = 1)\<rparr>)
          (no_body\<lparr>email := Some ''ana@x.com''\<rparr>) demo_state =
     (msg 500 ''Erro ao enviar email.'', demo_state)"
proof -
  let ?s = "demo_state\<lparr>users := [ana\<lparr>u_reset_token := None, u_reset_expires := None\<rparr>]\<rparr>"
  let ?b = "no_body\<lparr>email := Some ''ana@x.com''\<rparr>"
  let ?io = "demo_io\<lparr>sendMail_rejects := True\<rparr>"
  let ?down = "demo_io\<lparr>query_rejects := (\<lambda>k. k = 1)\<rparr>"
  have b: "email ?b = Some ''ana@x.com''" "''ana@x.com'' \<noteq> []"
    by (simp_all add: no_body_def)
  have sel: "select_users ''ana@x.com'' ?s =
      ana\<lparr>u_reset_token := None, u_reset_expires := None\<rparr> # []"
    "select_users ''ana@x.com'' demo_state = ana # []"
    by (simp_all add: select_users_def demo_state_def ana_def)
  have q: "\<not> query_rejects ?io 0" "\<not> query_rejects ?io 1" "sendMail_rejects ?io"
    "\<not> query_rejects ?down 0" "query_rejects ?down 1"
    by (simp_all add: demo_io_def)
  have code: "generateResetCode demo_env ?io = ''325000''"
    by (rule generateResetCode_quarter) (simp add: demo_io_def)
  have 1: "fst (forgot_password demo_env ?io ?b ?s) = msg 500 ''Erro ao enviar email.''"
    and row: "select_users ''ana@x.com'' (snd (forgot_password demo_env ?io ?b ?s)) =
       [ana\<lparr>u_reset_token := Some (generateResetCode demo_env ?io),
            u_reset_expires := Some (Date_now ?io + 15 * 60 * 1000)\<rparr>]"
    using forgot_password_persists_before_mail
      [of demo_env ?io ?b ?s "''ana@x.com''"
          "ana\<lparr>u_reset_token := None, u_reset_expires := None\<rparr>" "[]", THEN conjunct2]
      b sel(1) q(1-3)
    by simp_all
  have "ana\<lparr>u_reset_token := Some (generateResetCode demo_env ?io),
            u_reset_expires := Some (Date_now ?io + 15 * 60 * 1000)\<rparr> = ana"
    by (simp add: code) (simp add: ana_def demo_io_def)
  with row have 2:
    "select_users ''ana@x.com'' (snd (forgot_password demo_env ?io ?b ?s)) = [ana]"
    by simp
  have 4: "forgot_password demo_env ?down ?b demo_state =
      (msg 500 ''Erro ao enviar email.'', demo_state)"
    using forgot_password_persists_before_mail
      [of demo_env ?down ?b demo_state "''ana@x.com''" ana "[]", THEN conjunct2]
      b sel(2) q(4,5)
    by simp
  have "sendMail_calls (snd (forgot_password demo_env ?io ?b ?s)) =
      sendMail_calls ?s @ [reset_mail demo_env ''ana@x.com'' (u_name ana) (generateResetCode demo_env ?io)]"
    using q(2,3) by (simp add: forgot_password_found [OF b q(1) sel(1)])
  then have 3: "length (sendMail_calls (snd (forgot_password demo_env ?io ?b ?s))) = 1"
    by (simp add: demo_state_def)
  from 1 2 3 4 show ?thesis by (intro conjI)
qed

text \<open>
  \<^bold>\<open>C6.\<close> When \<^verbatim>\<open>/auth/forgot-password\<close> answers 200, the request named the email of
  an existing user, and the row found by that email now has
  \<^item> \<^verbatim>\<open>reset_token\<close> a string of six decimal digits, the numeral of a number from 100000
    to 999999, and
  \<^item> \<^verbatim>\<open>reset_expires\<close> the clock reading of the request plus \<open>15 * 60 * 1000\<close>
    milliseconds;
  the other fields of the row are as before. \<^verbatim>\<open>Math.random()\<close> is a double \<open>r\<close> with
  \<open>0 \<le> r < 1\<close>, and \<open>100000 + r * 900000\<close> is computed in doubles, the product and the
  sum each rounded to the nearest: the largest \<open>r\<close>, \<open>1 - 2\<^sup>-\<^sup>5\<^sup>3\<close>, gives 999999.
\<close>

theorem forgot_password_code_and_expiry:
  fixes env :: "'f env" and s :: "'f state"
  assumes "status (fst (forgot_password env io b s)) = 200"
    and "fl (Math_random io) = Math_random io"
    and "0 \<le> Math_random io" and "Math_random io < 1"
  shows "\<exists>e user rest code n.
      email b = Some e \<and> select_users e s = user # rest
      \<and> select_users e (snd (forgot_password env io b s)) =
          user\<lparr>u_reset_token := Some code, u_reset_expires := Some (Date_now io + 15 * 60 * 1000)\<rparr>
          # map (\<lambda>u. if u_id u = u_id user
                      then u\<lparr>u_reset_token := Some code,
                             u_reset_expires := Some (Date_now io + 15 * 60 * 1000)\<rparr>
                      else u) rest
      \<and> code = Number_toString env n \<and> code = decimal n \<and> 100000 \<le> n \<and> n \<le> 999999
      \<and> length code = 6 \<and> list_all is_digit code \<and> parseInt_string code = Some n"
proof -
  from assms(1) obtain e user rest where
    e: "email b = Some e" "e \<noteq> []" "\<not> query_rejects io 0" "select_users e s = user # rest"
    and ok: "\<not> query_rejects io 1" "\<not> sendMail_rejects io"
    by (auto simp add: forgot_password_def msg_def Let_def
        split: option.splits list.splits if_splits)
  define n where "n = \<lfloor>fl (100000 + fl (Math_random io * 900000))\<rfloor>"
  have range: "100000 \<le> n" "n \<le> 999999"
    using reset_code_range [OF assms(2-4)] by (simp_all add: n_def)
  then have safe: "Number_toString env n = decimal n"
    by (intro Number_toString_safe) simp
  have code: "generateResetCode env io = decimal n"
    by (simp add: generateResetCode_def n_def [symmetric] safe)
  have sel: "select_users e (snd (forgot_password env io b s)) =
      map (\<lambda>u. if u_id u = u_id user
                then u\<lparr>u_reset_token := Some (decimal n),
                       u_reset_expires := Some (Date_now io + 900000)\<rparr>
                else u) (select_users e s)"
    using ok by (simp add: forgot_password_found [OF e] code select_users_forgot_password)
  show ?thesis
    by (rule exI [of _ e], rule exI [of _ user], rule exI [of _ rest],
        rule exI [of _ "decimal n"], rule exI [of _ n])
      (simp add: e(1,4) range six_digits [OF range] parseInt_string_decimal sel list_all_iff
        safe)
qed

text \<open>
  With \<^verbatim>\<open>Math.random()\<close> at \<open>1/4\<close> and the clock at 1700000000000, Ana's row gets the
  code 325000, valid until 1700000900000.
\<close>

theorem forgot_password_code_and_expiry_example:
  "status (fst (forgot_password demo_env demo_io (no_body\<lparr>email := Some ''ana@x.com''\<rparr>)
      (demo_state\<lparr>users := [ana\<lparr>u_reset_token := None, u_reset_expires := None\<rparr>]\<rparr>))) = 200
   \<and> fl (Math_random demo_io) = Math_random demo_io
   \<and> 0 \<le> Math_random demo_io \<and> Math_random demo_io < 1
   \<and> select_users ''ana@x.com''
       (snd (forgot_password demo_env demo_io (no_body\<lparr>email := Some ''ana@x.com''\<rparr>)
          (demo_state\<lparr>users := [ana\<lparr>u_reset_token := None, u_reset_expires := None\<rparr>]\<rparr>))) =
     [ana\<lparr>u_reset_token := Some ''325000'', u_reset_expires := Some 1700000900000\<rparr>]
   \<and> (\<exists>code n.
        u_reset_token (hd (select_users ''ana@x.com''
          (snd (forgot_password demo_env demo_io (no_body\<lparr>email := Some ''ana@x.com''\<rparr>)
             (demo_state\<lparr>users := [ana\<lparr>u_reset_token := None, u_reset_expires := None\<rparr>]\<rparr>))))) =
          Some code
        \<and> length code = 6 \<and> list_all is_digit code \<and> parseInt_string code = Some n
        \<and> 100000 \<le> n \<and> n \<le> 999999)"
proof -
  let ?s = "demo_state\<lparr>users := [ana\<lparr>u_reset_token := None, u_reset_expires := None\<rparr>]\<rparr>"
  let ?b = "no_body\<lparr>email := Some ''ana@x.com''\<rparr>"
  have b: "email ?b = Some ''ana@x.com''" "''ana@x.com'' \<noteq> []"
    by (simp_all add: no_body_def)
  have sel: "select_users ''ana@x.com'' ?s =
      ana\<lparr>u_reset_token := None, u_reset_expires := None\<rparr> # []"
    by (simp add: select_users_def demo_state_def ana_def)
  have q: "\<not> query_rejects demo_io 0" "\<not> query_rejects demo_io 1" "\<not> sendMail_rejects demo_io"
    by (simp_all add: demo_io_def)
  have ok: "status (fst (forgot_password demo_env demo_io ?b ?s)) = 200"
    using q by (simp add: forgot_password_found [OF b q(1) sel] msg_def)
  have "fl (1 / 4) = 1 / 4"
    by (simp add: fl_def binade_def compute_bitlen round_half_even_def)
  then have r: "fl (Math_random demo_io) = Math_random demo_io"
      "0 \<le> Math_random demo_io" "Math_random demo_io < 1"
    by (simp_all add: demo_io_def)
  have code: "generateResetCode demo_env demo_io = ''325000''"
    by (rule generateResetCode_quarter) (simp add: demo_io_def)
  have row: "select_users ''ana@x.com'' (snd (forgot_password demo_env demo_io ?b ?s)) =
      [ana\<lparr>u_reset_token := Some ''325000'', u_reset_expires := Some 1700000900000\<rparr>]"
    using q
    by (simp add: forgot_password_found [OF b q(1) sel] select_users_forgot_password sel code)
      (simp add: demo_io_def)
  from forgot_password_code_and_expiry [OF ok r] obtain e user rest code' n where
    e: "email ?b = Some e" "select_users e ?s = user # rest"
    and s': "select_users e (snd (forgot_password demo_env demo_io ?b ?s)) =
          user\<lparr>u_reset_token := Some code',
                u_reset_expires := Some (Date_now demo_io + 15 * 60 * 1000)\<rparr>
          # map (\<lambda>u. if u_id u = u_id user
                      then u\<lparr>u_reset_token := Some code',
                             u_reset_expires := Some (Date_now demo_io + 15 * 60 * 1000)\<rparr>
                      else u) rest"
    and c: "code' = Number_toString demo_env n" "code' = decimal n" "100000 \<le> n" "n \<le> 999999"
      "length code' = 6"
      "list_all is_digit code'" "parseInt_string code' = Some n"
    by blast
  from e(1) b(1) have "e = ''ana@x.com''" by simp
  with s' have "u_reset_token (hd (select_users ''ana@x.com''
      (snd (forgot_password demo_env demo_io ?b ?s)))) = Some code'"
    by simp
  with c have "\<exists>code n.
        u_reset_token (hd (select_users ''ana@x.com''
          (snd (forgot_password demo_env demo_io ?b ?s)))) = Some code
        \<and> length code = 6 \<and> list_all is_digit code \<and> parseInt_string code = Some n
        \<and> 100000 \<le> n \<and> n \<le> 999999"
    by blast
  with ok r row show ?thesis by (intro conjI)
qed

subsection \<open>The reset fields stay paired\<close>

lemma users_register:
  "users (snd (register env io b s)) = users s \<or>
   (\<exists>n e h. users (snd (register env io b s)) =
      users s @ [\<lparr>u_id = users_id_seq s, u_name = n, u_email = e, u_password_hash = h,
                  u_reset_token = None, u_reset_expires = None\<rparr>])"
  by (auto simp add: register_def insert_user_def Let_def split: option.splits jsval.splits)

lemma state_login: "snd (login env io b s) = s"
  by (simp add: login_def split: option.splits list.splits jsval.splits)

lemma users_forgot_password:
  "users (snd (forgot_password env io b s)) = users s \<or>
   (\<exists>code expires i. users (snd (forgot_password env io b s)) =
      users (update_reset code expires i s))"
  by (auto simp add: forgot_password_def Let_def update_reset_def split: option.splits list.splits)

lemma users_reset_password:
  "users (snd (reset_password env io b s)) = users s \<or>
   (\<exists>h i. users (snd (reset_password env io b s)) = users (update_password h i s))"
  by (auto simp add: reset_password_def Let_def split: option.splits list.splits prod.splits)

lemma users_stats_update: "users (snd (stats_update env io b user s)) = users s"
  by (simp add: stats_update_def Let_def insert_game_stats_def update_game_stats_def
      split: list.splits number.splits)

lemma state_stats_me: "snd (stats_me env io user s) = s"
  by (simp add: stats_me_def Let_def split: prod.splits)

lemma state_stats_ranking: "snd (stats_ranking io s) = s"
  by (simp add: stats_ranking_def split: option.splits)

lemma invariant_update_reset:
  "list_all reset_fields_paired (users s) \<Longrightarrow>
   list_all reset_fields_paired (users (update_reset code expires i s))"
  by (auto simp add: update_reset_def list_all_iff reset_fields_paired_def)

lemma invariant_update_password:
  "list_all reset_fields_paired (users s) \<Longrightarrow>
   list_all reset_fields_paired (users (update_password h i s))"
  by (auto simp add: update_password_def list_all_iff reset_fields_paired_def)

lemma invariant_register: "reset_invariant s \<Longrightarrow> reset_invariant (snd (register env io b s))"
  using users_register [of env io b s]
  by (auto simp add: reset_invariant_def reset_fields_paired_def)

lemma invariant_forgot_password:
  "reset_invariant s \<Longrightarrow> reset_invariant (snd (forgot_password env io b s))"
  using users_forgot_password [of env io b s] invariant_update_reset [of s]
  by (auto simp add: reset_invariant_def)

lemma invariant_reset_password:
  "reset_invariant s \<Longrightarrow> reset_invariant (snd (reset_password env io b s))"
  using users_reset_password [of env io b s] invariant_update_password [of s]
  by (auto simp add: reset_invariant_def)

lemma invariant_stats_update:
  "reset_invariant s \<Longrightarrow> reset_invariant (snd (stats_update env io b user s))"
  by (simp add: reset_invariant_def users_stats_update)

lemma invariant_app:
  assumes "reset_invariant s" "app env io req s = Some (res, s')"
  shows "reset_invariant s'"
proof -
  have pair: "reset_invariant s'" if "r = (res, s')" "reset_invariant (snd r)" for r
    using that by simp
  from assms(2) consider
      "register env io (body req) s = (res, s')"
    | "login env io (body req) s = (res, s')"
    | "forgot_password env io (body req) s = (res, s')"
    | "reset_password env io (body req) s = (res, s')"
    | "s' = s"
    | user where "stats_update env io (body req) user s = (res, s')"
    | user where "stats_me env io user s = (res, s')"
    | "stats_ranking io s = (res, s')"
    by (auto simp add: app_def split: if_splits sum.splits)
  then show ?thesis
  proof cases
    case 1 then show ?thesis using assms(1) invariant_register pair by blast
  next
    case 2 then show ?thesis using assms(1) state_login [of env io "body req" s]
      by (metis snd_conv)
  next
    case 3 then show ?thesis using assms(1) invariant_forgot_password pair by blast
  next
    case 4 then show ?thesis using assms(1) invariant_reset_password pair by blast
  next
    case 5 then show ?thesis using assms(1) by simp
  next
    case 6 then show ?thesis using assms(1) invariant_stats_update pair by blast
  next
    case 7 then show ?thesis using assms(1) state_stats_me [of env io user s]
      by (metis snd_conv)
  next
    case 8 then show ?thesis using assms(1) state_stats_ranking [of io s]
      by (metis snd_conv)
  qed
qed

text \<open>
  \<^bold>\<open>C7.\<close> If on every row of \<^verbatim>\<open>users\<close> the fields \<^verbatim>\<open>reset_token\<close> and \<^verbatim>\<open>reset_expires\<close>
  are both \<^verbatim>\<open>NULL\<close> or both set, then they are so after \<^verbatim>\<open>/auth/register\<close>, after
  \<^verbatim>\<open>/auth/forgot-password\<close> and after \<^verbatim>\<open>/auth/reset-password\<close>, whatever the request and
  whether it succeeds, fails or meets a store or mail failure; and so they are after
  any request the application routes. (The empty table has the property.)
\<close>

theorem reset_fields_invariant:
  fixes env :: "'f env" and s :: "'f state"
  assumes "reset_invariant s"
  shows "reset_invariant (snd (register env io b s))
     \<and> reset_invariant (snd (forgot_password env io b s))
     \<and> reset_invariant (snd (reset_password env io b s))
     \<and> (\<forall>req res s'. app env io req s = Some (res, s') \<longrightarrow> reset_invariant s')"
  using assms invariant_register invariant_forgot_password invariant_reset_password invariant_app
  by blast

text \<open>
  From the empty store: Ana registers (both fields \<^verbatim>\<open>NULL\<close>), asks for a code (both
  set) and resets her password (both \<^verbatim>\<open>NULL\<close> again).
\<close>

theorem reset_fields_invariant_example:
  "reset_invariant empty_state
   \<and> reset_invariant (snd (register demo_env demo_io
        (no_body\<lparr>name := Some ''Ana'', email := Some ''ana@x.com'',
                  password := Str ''secret1''\<rparr>) empty_state))
   \<and> reset_invariant demo_state
   \<and> reset_invariant (snd (forgot_password demo_env demo_io
        (no_body\<lparr>email := Some ''ana@x.com''\<rparr>)
        (demo_state\<lparr>users := [ana\<lparr>u_reset_token := None, u_reset_expires := None\<rparr>]\<rparr>)))
   \<and> reset_invariant (snd (reset_password demo_env demo_io
        (no_body\<lparr>email := Some ''ana@x.com'', token := Some ''325000'',
                  newPassword := Some ''secret2''\<rparr>) demo_state))
   \<and> map (\<lambda>u. (u_reset_token u, u_reset_expires u))
        (users (snd (reset_password demo_env demo_io
          (no_body\<lparr>email := Some ''ana@x.com'', token := Some ''325000'',
                    newPassword := Some ''secret2''\<rparr>) demo_state))) = [(None, None)]"
proof -
  have 0: "reset_invariant empty_state"
    by (simp add: reset_invariant_def empty_state_def)
  have 1: "reset_invariant demo_state"
    by (simp add: reset_invariant_def demo_state_def reset_fields_paired_def ana_def)
  have 2: "reset_invariant
      (demo_state\<lparr>users := [ana\<lparr>u_reset_token := None, u_reset_expires := None\<rparr>]\<rparr>)"
    by (simp add: reset_invariant_def reset_fields_paired_def)
  have 3: "map (\<lambda>u. (u_reset_token u, u_reset_expires u))
        (users (snd (reset_password demo_env demo_io
          (no_body\<lparr>email := Some ''ana@x.com'', token := Some ''325000'',
                    newPassword := Some ''secret2''\<rparr>) demo_state))) = [(None, None)]"
    by (simp add: reset_password_def no_body_def falsy_def demo_io_def demo_state_def
        select_users_def ana_def new_Date_def update_password_def)
  from reset_fields_invariant [OF 0, of demo_env demo_io]
    reset_fields_invariant [OF 1, of demo_env demo_io]
    reset_fields_invariant [OF 2, of demo_env demo_io]
    0 1 3
  show ?thesis by blast
qed

subsection \<open>The token gate\<close>

lemma authenticateToken_cases:
  "authenticateToken env io req =
     (case bearer_token req of
        None \<Rightarrow> Inl (msg 401 ''Acesso negado.'')
      | Some t \<Rightarrow>
          if t = [] then Inl (msg 401 ''Acesso negado.'')
          else (case jwt_verify env t (JWT_SECRET env) (Date_now io) of
                  None \<Rightarrow> Inl (msg 403 (''Token inv'' @ [CHR 0xE1] @ ''lido.''))
                | Some user \<Rightarrow> Inr user))"
  by (simp add: authenticateToken_def falsy_def Let_def split: option.splits)

lemma app_protected:
  assumes "req_method req = POST \<and> req_path req = ''/stats/update'' \<or>
           req_method req = GET \<and> req_path req = ''/stats/me''"
  shows "app env io req s =
     Some (case authenticateToken env io req of
             Inl res \<Rightarrow> (res, s)
           | Inr user \<Rightarrow>
               if req_method req = POST then stats_update env io (body req) user s
               else stats_me env io user s)"
  using assms by (auto simp add: app_def split: sum.splits)

text \<open>
  \<^bold>\<open>C8.\<close> For every request to a route behind \<^verbatim>\<open>authenticateToken\<close>
  (\<^verbatim>\<open>POST /stats/update\<close>, \<^verbatim>\<open>GET /stats/me\<close>), with \<open>bearer_token\<close> the second
  space-separated word of the \<^verbatim>\<open>Authorization\<close> header:
  \<^item> no header, or no such word, or an empty one: 401 ``Acesso negado.'';
  \<^item> a token that \<^verbatim>\<open>jwt.verify\<close> refuses (signature, format or expiry): 403
    ``Token invalido.'';
  \<^item> a token that \<^verbatim>\<open>jwt.verify\<close> accepts: the handler runs, with the decoded payload as
    \<^verbatim>\<open>req.user\<close>.
  In the first two cases the handler does not run and the state is unchanged; the
  middleware calls \<^verbatim>\<open>next()\<close> exactly in the third.
\<close>

theorem token_gate:
  fixes env :: "'f env" and s :: "'f state" and req :: "'f request"
  assumes "req_method req = POST \<and> req_path req = ''/stats/update'' \<or>
           req_method req = GET \<and> req_path req = ''/stats/me''"
  shows "(headers req ''authorization'' = None \<longrightarrow> bearer_token req = None)
    \<and> (falsy (bearer_token req) \<longrightarrow>
          app env io req s = Some (msg 401 ''Acesso negado.'', s))
    \<and> (\<forall>t. bearer_token req = Some t \<and> t \<noteq> [] \<and>
            jwt_verify env t (JWT_SECRET env) (Date_now io) = None \<longrightarrow>
          app env io req s = Some (msg 403 (''Token inv'' @ [CHR 0xE1] @ ''lido.''), s))
    \<and> (\<forall>t user. bearer_token req = Some t \<and> t \<noteq> [] \<and>
            jwt_verify env t (JWT_SECRET env) (Date_now io) = Some user \<longrightarrow>
          app env io req s =
            Some (if req_method req = POST then stats_update env io (body req) user s
                  else stats_me env io user s))
    \<and> (\<forall>user. authenticateToken env io req = Inr user \<longleftrightarrow>
          (\<exists>t. bearer_token req = Some t \<and> t \<noteq> [] \<and>
               jwt_verify env t (JWT_SECRET env) (Date_now io) = Some user))"
proof -
  note gate = authenticateToken_cases [of env io req]
  note app = app_protected [OF assms, of env io s]
  have a: "headers req ''authorization'' = None \<longrightarrow> bearer_token req = None"
    by (simp add: bearer_token_def)
  have b: "falsy (bearer_token req) \<longrightarrow>
      app env io req s = Some (msg 401 ''Acesso negado.'', s)"
    by (simp add: app gate falsy_def split: option.splits)
  have c: "\<forall>t. bearer_token req = Some t \<and> t \<noteq> [] \<and>
            jwt_verify env t (JWT_SECRET env) (Date_now io) = None \<longrightarrow>
          app env io req s = Some (msg 403 (''Token inv'' @ [CHR 0xE1] @ ''lido.''), s)"
    by (simp add: app gate)
  have d: "\<forall>t user. bearer_token req = Some t \<and> t \<noteq> [] \<and>
            jwt_verify env t (JWT_SECRET env) (Date_now io) = Some user \<longrightarrow>
          app env io req s =
            Some (if req_method req = POST then stats_update env io (body req) user s
                  else stats_me env io user s)"
    by (simp add: app gate)
  have e: "\<forall>user. authenticateToken env io req = Inr user \<longleftrightarrow>
          (\<exists>t. bearer_token req = Some t \<and> t \<noteq> [] \<and>
               jwt_verify env t (JWT_SECRET env) (Date_now io) = Some user)"
    by (auto simp add: gate split: option.splits)
  from a b c d e show ?thesis by (intro conjI)
qed

text \<open>
  \<^verbatim>\<open>GET /stats/me\<close> with no header, with a header of one word, with a token that does
  not verify, and with Ana's token: 401, 401, 403, and her statistics.
\<close>

theorem token_gate_example:
  "app demo_env demo_io
      \<lparr>req_method = GET, req_path = ''/stats/me'', headers = Map.empty, body = no_body\<rparr>
      demo_state =
     Some (msg 401 ''Acesso negado.'', demo_state)
   \<and> app demo_env demo_io
      \<lparr>req_method = GET, req_path = ''/stats/me'',
        headers = [''authorization'' \<mapsto> ''Bearer''], body = no_body\<rparr> demo_state =
     Some (msg 401 ''Acesso negado.'', demo_state)
   \<and> app demo_env demo_io
      \<lparr>req_method = GET, req_path = ''/stats/me'',
        headers = [''authorization'' \<mapsto> ''Bearer x.y.z''], body = no_body\<rparr> demo_state =
     Some (msg 403 (''Token inv'' @ [CHR 0xE1] @ ''lido.''), demo_state)
   \<and> app demo_env demo_io
      \<lparr>req_method = GET, req_path = ''/stats/me'',
        headers = [''authorization'' \<mapsto> ''Bearer k.I.ana@x.com''], body = no_body\<rparr>
      demo_state =
     Some (\<lparr>status = 200,
            json = JObj
              [(''scores'', JObj [(''matematica'', JInt 200), (''computacao'', JInt 0),
                                  (''portugues'', JInt 0), (''historia'', JInt 0)]),
               (''highScores'', JObj [(''matematica'', JInt 80), (''computacao'', JInt 0),
                                      (''portugues'', JInt 0), (''historia'', JInt 0)]),
               (''hours'', JObj [(''matematica'', JFloat 2), (''computacao'', JInt 0),
                                 (''portugues'', JInt 0), (''historia'', JInt 0)])]\<rparr>,
           demo_state)"
proof -
  let ?r0 = "\<lparr>req_method = GET, req_path = ''/stats/me'', headers = Map.empty,
              body = no_body\<rparr>"
  let ?r1 = "\<lparr>req_method = GET, req_path = ''/stats/me'',
              headers = [''authorization'' \<mapsto> ''Bearer''], body = no_body\<rparr>"
  let ?r2 = "\<lparr>req_method = GET, req_path = ''/stats/me'',
              headers = [''authorization'' \<mapsto> ''Bearer x.y.z''], body = no_body\<rparr>"
  let ?r3 = "\<lparr>req_method = GET, req_path = ''/stats/me'',
              headers = [''authorization'' \<mapsto> ''Bearer k.I.ana@x.com''], body = no_body\<rparr>"
  have route: "req_method r = POST \<and> req_path r = ''/stats/update'' \<or>
           req_method r = GET \<and> req_path r = ''/stats/me''"
    if "r \<in> {?r0, ?r1, ?r2, ?r3}" for r
    using that by auto
  have t0: "falsy (bearer_token ?r0)" and t1: "falsy (bearer_token ?r1)"
    by (simp_all add: bearer_token_def falsy_def)
  have t2: "bearer_token ?r2 = Some ''x.y.z''" "''x.y.z'' \<noteq> []"
      "jwt_verify demo_env ''x.y.z'' (JWT_SECRET demo_env) (Date_now demo_io) = None"
    by (simp_all add: bearer_token_def demo_env_def)
  have t3: "bearer_token ?r3 = Some ''k.I.ana@x.com''" "''k.I.ana@x.com'' \<noteq> []"
      "jwt_verify demo_env ''k.I.ana@x.com'' (JWT_SECRET demo_env) (Date_now demo_io) =
         Some ana_claims"
    by (simp_all add: bearer_token_def demo_env_def ana_claims_def)
  have me: "stats_me demo_env demo_io ana_claims demo_state =
      (\<lparr>status = 200,
        json = JObj
          [(''scores'', JObj [(''matematica'', JInt 200), (''computacao'', JInt 0),
                              (''portugues'', JInt 0), (''historia'', JInt 0)]),
           (''highScores'', JObj [(''matematica'', JInt 80), (''computacao'', JInt 0),
                                  (''portugues'', JInt 0), (''historia'', JInt 0)]),
           (''hours'', JObj [(''matematica'', JFloat 2), (''computacao'', JInt 0),
                             (''portugues'', JInt 0), (''historia'', JInt 0)])]\<rparr>,
       demo_state)"
    by (simp add: stats_me_def ana_claims_def demo_io_def demo_state_def games_def stats_row_def
        has_property_def set_property_def demo_env_def parseInt_Number_numeral)
  have 0: "app demo_env demo_io ?r0 demo_state = Some (msg 401 ''Acesso negado.'', demo_state)"
    using token_gate [OF route, of ?r0 demo_env demo_io demo_state] t0 by simp
  have 1: "app demo_env demo_io ?r1 demo_state = Some (msg 401 ''Acesso negado.'', demo_state)"
    using token_gate [OF route, of ?r1 demo_env demo_io demo_state] t1 by simp
  have 2: "app demo_env demo_io ?r2 demo_state =
      Some (msg 403 (''Token inv'' @ [CHR 0xE1] @ ''lido.''), demo_state)"
    using token_gate [OF route, of ?r2 demo_env demo_io demo_state] t2 by simp
  have 3: "app demo_env demo_io ?r3 demo_state =
      Some (stats_me demo_env demo_io ana_claims demo_state)"
    using token_gate [OF route, of ?r3 demo_env demo_io demo_state] t3 by simp
  from 0 1 2 3 show ?thesis unfolding me by (intro conjI)
qed

subsection \<open>The ranking\<close>

lemma take1_sort_key:
  assumes "xs \<noteq> []"
  shows "\<exists>x. take 1 (sort_key f xs) = [x] \<and> x \<in> set xs \<and> (\<forall>y\<in>set xs. f x \<le> f y)"
proof -
  have "sort_key f xs \<noteq> []"
    using assms by (metis length_0_conv length_sort)
  then obtain x rest where xr: "sort_key f xs = x # rest"
    by (cases "sort_key f xs") auto
  have "sorted (map f (x # rest))"
    using sorted_sort_key [of f xs] by (simp add: xr)
  then have "\<forall>y\<in>set (x # rest). f x \<le> f y" by auto
  moreover have "set (x # rest) = set xs"
    using set_sort [of f xs] by (simp add: xr)
  ultimately show ?thesis by (auto simp add: xr)
qed

lemma ranking_entry_top:
  "(ranking_rows g s = [] \<longrightarrow>
      (ranking_entry (select_top g s) :: 'f json) =
        JObj [(''name'', JStr ''---''), (''high_score'', JInt 0)])
   \<and> (ranking_rows g s \<noteq> [] \<longrightarrow>
      (\<exists>nm hs. (nm, hs) \<in> set (ranking_rows g s) \<and>
          (\<forall>r\<in>set (ranking_rows g s). snd r \<le> hs) \<and>
          (ranking_entry (select_top g s) :: 'f json) =
            JObj [(''name'', JStr nm), (''high_score'', JInt hs)]))"
proof (cases "ranking_rows g s = []")
  case True
  then show ?thesis by (simp add: select_top_def ranking_entry_def)
next
  case False
  from take1_sort_key [OF False, of "\<lambda>r. - snd r"] obtain x where
    x: "take 1 (sort_key (\<lambda>r. - snd r) (ranking_rows g s)) = [x]" "x \<in> set (ranking_rows g s)"
      "\<forall>y\<in>set (ranking_rows g s). snd y \<le> snd x"
    by auto
  have "(fst x, snd x) \<in> set (ranking_rows g s)" using x(2) by simp
  moreover have "(ranking_entry (select_top g s) :: 'f json) =
      JObj [(''name'', JStr (fst x)), (''high_score'', JInt (snd x))]"
    using x(1) by (simp add: select_top_def ranking_entry_def)
  ultimately show ?thesis using False x(3) by blast
qed

lemma ranking_loop_ok:
  "\<forall>j < length gs. \<not> query_rejects io (k + j) \<Longrightarrow>
   ranking_loop io s k gs = Some (map (\<lambda>g. (g, ranking_entry (select_top g s))) gs)"
proof (induction gs arbitrary: k)
  case Nil
  then show ?case by simp
next
  case (Cons g gs)
  from Cons.prems have 0: "\<not> query_rejects io k" by force
  from Cons.prems have "\<forall>j < length gs. \<not> query_rejects io (Suc k + j)" by force
  from Cons.IH [OF this] 0 show ?case by simp
qed

text \<open>
  \<^bold>\<open>C9.\<close> \<^verbatim>\<open>GET /stats/ranking\<close> has no middleware: for every request to it, whatever
  its headers, when the store answers the four queries the answer is 200 with one entry
  for each of the four games, in the order of \<open>games\<close>. The entry of a game is the name
  and \<^verbatim>\<open>high_score\<close> of a row of the join of \<^verbatim>\<open>game_stats\<close> and \<^verbatim>\<open>users\<close> for that game
  whose \<^verbatim>\<open>high_score\<close> no other row of the game exceeds, and
  \<^verbatim>\<open>{ name: '---', high_score: 0 }\<close> when the game has no row. The same request without
  an \<^verbatim>\<open>Authorization\<close> header, sent to \<^verbatim>\<open>/stats/me\<close> or \<^verbatim>\<open>/stats/update\<close>, is refused
  with 401.
\<close>

theorem stats_ranking_public:
  fixes env :: "'f env" and s :: "'f state" and req :: "'f request"
  assumes "req_method req = GET" "req_path req = ''/stats/ranking''"
    and "\<forall>k < 4. \<not> query_rejects io k"
  shows "app env io req s =
      Some (\<lparr>status = 200,
             json = JObj (map (\<lambda>g. (g, ranking_entry (select_top g s)))
                        [''matematica'', ''computacao'', ''portugues'', ''historia''])\<rparr>, s)
    \<and> (\<forall>g. (ranking_rows g s = [] \<longrightarrow>
              (ranking_entry (select_top g s) :: 'f json) =
                JObj [(''name'', JStr ''---''), (''high_score'', JInt 0)])
           \<and> (ranking_rows g s \<noteq> [] \<longrightarrow>
              (\<exists>nm hs. (nm, hs) \<in> set (ranking_rows g s) \<and>
                  (\<forall>r\<in>set (ranking_rows g s). snd r \<le> hs) \<and>
                  (ranking_entry (select_top g s) :: 'f json) =
                    JObj [(''name'', JStr nm), (''high_score'', JInt hs)])))
    \<and> (headers req ''authorization'' = None \<longrightarrow>
          app env io (req\<lparr>req_path := ''/stats/me''\<rparr>) s = Some (msg 401 ''Acesso negado.'', s)
        \<and> app env io (req\<lparr>req_method := POST, req_path := ''/stats/update''\<rparr>) s =
            Some (msg 401 ''Acesso negado.'', s))"
proof -
  have "\<forall>j < length games. \<not> query_rejects io (0 + j)"
    using assms(3) by (simp add: games_def)
  from ranking_loop_ok [OF this, of s]
  have 1: "app env io req s =
      Some (\<lparr>status = 200,
             json = JObj (map (\<lambda>g. (g, ranking_entry (select_top g s)))
                        [''matematica'', ''computacao'', ''portugues'', ''historia''])\<rparr>, s)"
    using assms(1,2) by (simp add: app_def stats_ranking_def games_def)
  have 3: "app env io (req\<lparr>req_path := ''/stats/me''\<rparr>) s = Some (msg 401 ''Acesso negado.'', s)
        \<and> app env io (req\<lparr>req_method := POST, req_path := ''/stats/update''\<rparr>) s =
            Some (msg 401 ''Acesso negado.'', s)"
    if "headers req ''authorization'' = None"
    using that assms(1)
    by (simp add: app_def authenticateToken_def bearer_token_def falsy_def)
  show ?thesis using 1 3 ranking_entry_top [of _ s] by blast
qed

text \<open>
  Without any header, on a store where Ana has 80 and Bia 95 in \<^verbatim>\<open>matematica\<close> and Bia
  40 in \<^verbatim>\<open>portugues\<close>: Bia leads both, the two other games have no player; the same
  request to \<^verbatim>\<open>/stats/me\<close> gets 401.
\<close>

theorem stats_ranking_public_example:
  "app demo_env demo_io
      \<lparr>req_method = GET, req_path = ''/stats/ranking'', headers = Map.empty, body = no_body\<rparr>
      league_state =
     Some (\<lparr>status = 200,
            json = JObj
              [(''matematica'', JObj [(''name'', JStr ''Bia''), (''high_score'', JInt 95)]),
               (''computacao'', JObj [(''name'', JStr ''---''), (''high_score'', JInt 0)]),
               (''portugues'', JObj [(''name'', JStr ''Bia''), (''high_score'', JInt 40)]),
               (''historia'', JObj [(''name'', JStr ''---''), (''high_score'', JInt 0)])]\<rparr>,
           league_state)
   \<and> app demo_env demo_io
      \<lparr>req_method = GET, req_path = ''/stats/me'', headers = Map.empty, body = no_body\<rparr>
      league_state =
     Some (msg 401 ''Acesso negado.'', league_state)"
proof -
  let ?req = "\<lparr>req_method = GET, req_path = ''/stats/ranking'', headers = Map.empty,
               body = no_body\<rparr>"
  have r: "req_method ?req = GET" "req_path ?req = ''/stats/ranking''"
    by simp_all
  have q: "\<forall>k < 4. \<not> query_rejects demo_io k"
    by (simp add: demo_io_def)
  have top: "select_top ''matematica'' league_state = [(''Bia'', 95)]"
      "select_top ''computacao'' league_state = []"
      "select_top ''portugues'' league_state = [(''Bia'', 40)]"
      "select_top ''historia'' league_state = []"
    by (simp_all add: select_top_def ranking_rows_def league_state_def ana_def bia_def)
  from stats_ranking_public [OF r q, of demo_env league_state]
  show ?thesis by (simp add: top ranking_entry_def)
qed

subsection \<open>The high score\<close>






end
